theory Spec2Isabelle
  imports Complex_Main
begin

section \<open>Values, frames and the object store\<close>

text \<open>
  The estimator \<^verbatim>\<open>calculate_pa_levels\<close> of \<^verbatim>\<open>paat/estimates.py\<close> is ten lines
  of calls into a data-frame library.  The embedding keeps the statements of the source one
  by one and gives each library call a definition of its own.

  Floating-point numbers are idealised as reals; the one non-number that the pipeline can
  produce, the missing value of an empty resampling window or of an unmatched join row, is
  the cell \<open>NaN\<close>.  Timestamps are integers (nanoseconds since the epoch, as
  \<^verbatim>\<open>datetime64[ns]\<close> stores them).
\<close>

text \<open>
  The exceptions that the calls of the estimator raise.  \<open>OutOfBounds\<close> stands for the
  errors of the library on a timestamp or a duration that 64 bits cannot hold
  (\<^verbatim>\<open>OverflowError\<close>, \<^verbatim>\<open>OutOfBoundsDatetime\<close>, \<^verbatim>\<open>OutOfBoundsTimedelta\<close>), which are
  not told apart.  \<open>Unmodelled\<close> is not an exception of the program: it marks an input
  outside the embedding (a reference to no object, a frequency string outside the forms
  that \<open>to_offset\<close> below reads, a join key that is not a timestamp).
\<close>

datatype error =
  KeyError | ValueError | TypeError | ZeroDivisionError | OutOfBounds | Unmodelled

datatype cell = Num real | NaN | Stamp int | Flag bool

type_synonym column = "cell list"

text \<open>A data frame: an optional named index and the columns in their order.\<close>

record frame =
  idx :: "(string \<times> column) option"
  cols :: "(string \<times> column) list"

text \<open>
  Python names are bound to objects, and \<^verbatim>\<open>tmp = data\<close> binds a second name to the
  same frame.  Objects therefore live in a store, addressed by references; the two input
  arrays are objects of the store as well.
\<close>

datatype obj =
    TimeArr "int list"
  | AccArr "(real \<times> real \<times> real) list"
  | Frame frame

type_synonym ref = nat
type_synonym heap = "obj list"
type_synonym 'a py = "heap \<Rightarrow> (error + 'a) \<times> heap"

definition ret :: "'a \<Rightarrow> 'a py" where
  "ret x = (\<lambda>h. (Inr x, h))"

definition raise :: "error \<Rightarrow> 'a py" where
  "raise e = (\<lambda>h. (Inl e, h))"

definition bnd :: "'a py \<Rightarrow> ('a \<Rightarrow> 'b py) \<Rightarrow> 'b py" where
  "bnd m f = (\<lambda>h. case m h of (Inl e, h') \<Rightarrow> (Inl e, h') | (Inr x, h') \<Rightarrow> f x h')"

definition lift :: "error + 'a \<Rightarrow> 'a py" where
  "lift r = (\<lambda>h. (r, h))"

definition alloc :: "obj \<Rightarrow> ref py" where
  "alloc v = (\<lambda>h. (Inr (length h), h @ [v]))"

definition deref :: "ref \<Rightarrow> obj py" where
  "deref r = (\<lambda>h. if r < length h then (Inr (h ! r), h) else (Inl Unmodelled, h))"

definition store :: "ref \<Rightarrow> obj \<Rightarrow> unit py" where
  "store r v = (\<lambda>h. if r < length h then (Inr (), h[r := v]) else (Inl Unmodelled, h))"

definition get_frame :: "ref \<Rightarrow> frame py" where
  "get_frame r = bnd (deref r) (\<lambda>v. case v of Frame f \<Rightarrow> ret f | _ \<Rightarrow> raise TypeError)"

section \<open>The numeric arrays\<close>

text \<open>Reading the timestamp array that is assigned to the column \<^verbatim>\<open>Time\<close>.\<close>

definition np_stamps :: "ref \<Rightarrow> column py" where
  "np_stamps r =
     bnd (deref r) (\<lambda>v. case v of TimeArr ts \<Rightarrow> ret (map Stamp ts) | _ \<Rightarrow> raise TypeError)"

text \<open>
  Modelled from the spec: \<^verbatim>\<open>preprocessing.calculate_vector_magnitude\<close> is imported by
  the estimator and its module is not among the sources.  Section 4.1 of the specification:
  given n triples of readings, produce n scalars equal to the Euclidean norm of each
  triple, optionally minus one, optionally clamped to zero when negative.
\<close>

definition vector_magnitude :: "bool \<Rightarrow> bool \<Rightarrow> real \<times> real \<times> real \<Rightarrow> real" where
  "vector_magnitude minus_one round_negative_to_zero a =
     (case a of (y, x, z) \<Rightarrow>
        let n = sqrt (y * y + x * x + z * z);
            m = (if minus_one then n - 1 else n)
        in if round_negative_to_zero \<and> m < 0 then 0 else m)"

definition calculate_vector_magnitude :: "ref \<Rightarrow> bool \<Rightarrow> bool \<Rightarrow> column py" where
  "calculate_vector_magnitude r minus_one round_negative_to_zero =
     bnd (deref r) (\<lambda>v. case v of
        AccArr acc \<Rightarrow> ret (map (\<lambda>a. Num (vector_magnitude minus_one round_negative_to_zero a)) acc)
      | _ \<Rightarrow> raise TypeError)"

section \<open>Frame operations\<close>

definition nrows :: "frame \<Rightarrow> nat" where
  "nrows f = (case idx f of
       Some (n, c) \<Rightarrow> length c
     | None \<Rightarrow> (case cols f of [] \<Rightarrow> 0 | (n, c) # rest \<Rightarrow> length c))"

text \<open>\<^verbatim>\<open>pd.DataFrame(acceleration, columns=[...])\<close>: one column per axis.\<close>

definition DataFrame :: "(real \<times> real \<times> real) list \<Rightarrow> string list \<Rightarrow> error + frame" where
  "DataFrame acc names = (case names of
       [a, b, c] \<Rightarrow> Inr \<lparr>idx = None,
                          cols = [(a, map (\<lambda>(y, x, z). Num y) acc),
                                  (b, map (\<lambda>(y, x, z). Num x) acc),
                                  (c, map (\<lambda>(y, x, z). Num z) acc)]\<rparr>
     | _ \<Rightarrow> Inl ValueError)"

definition pd_DataFrame :: "ref \<Rightarrow> string list \<Rightarrow> ref py" where
  "pd_DataFrame r names =
     bnd (deref r) (\<lambda>v. case v of
        AccArr acc \<Rightarrow> bnd (lift (DataFrame acc names)) (\<lambda>f. alloc (Frame f))
      | _ \<Rightarrow> raise TypeError)"

text \<open>\<^verbatim>\<open>frame[name]\<close>: a missing column is a \<^verbatim>\<open>KeyError\<close>.\<close>

definition getitem :: "frame \<Rightarrow> string \<Rightarrow> error + column" where
  "getitem f name = (case map_of (cols f) name of None \<Rightarrow> Inl KeyError | Some c \<Rightarrow> Inr c)"

fun select_cols :: "(string \<times> column) list \<Rightarrow> string list \<Rightarrow> error + (string \<times> column) list" where
  "select_cols cs [] = Inr []"
| "select_cols cs (n # ns) = (case map_of cs n of
       None \<Rightarrow> Inl KeyError
     | Some c \<Rightarrow> (case select_cols cs ns of Inl e \<Rightarrow> Inl e | Inr r \<Rightarrow> Inr ((n, c) # r)))"

text \<open>\<^verbatim>\<open>frame[[n1, n2, ...]]\<close>: a new frame with the named columns.\<close>

definition getitems :: "frame \<Rightarrow> string list \<Rightarrow> error + frame" where
  "getitems f names = (case select_cols (cols f) names of
       Inl e \<Rightarrow> Inl e
     | Inr cs \<Rightarrow> Inr \<lparr>idx = idx f, cols = cs\<rparr>)"

text \<open>
  \<^verbatim>\<open>frame.loc[:, name] = values\<close>: replaces the column when it exists and appends it
  otherwise, in place; the values must have one entry per row.
\<close>

fun put_col :: "string \<Rightarrow> column \<Rightarrow> (string \<times> column) list \<Rightarrow> (string \<times> column) list" where
  "put_col name vs [] = [(name, vs)]"
| "put_col name vs ((n, c) # rest) =
     (if n = name then (name, vs) # rest else (n, c) # put_col name vs rest)"

definition set_column :: "frame \<Rightarrow> string \<Rightarrow> column \<Rightarrow> error + frame" where
  "set_column f name vs =
     (if length vs \<noteq> nrows f then Inl ValueError
      else Inr (f\<lparr>cols := put_col name vs (cols f)\<rparr>))"

definition loc_set :: "ref \<Rightarrow> string \<Rightarrow> column \<Rightarrow> unit py" where
  "loc_set r name vs =
     bnd (get_frame r) (\<lambda>f. bnd (lift (set_column f name vs)) (\<lambda>f'. store r (Frame f')))"

text \<open>\<^verbatim>\<open>frame.values\<close>: the rows of the frame.\<close>

definition frame_values :: "frame \<Rightarrow> cell list list" where
  "frame_values f = map (\<lambda>i. map (\<lambda>(n, c). c ! i) (cols f)) [0 ..< nrows f]"

text \<open>
  Elementwise comparison of a float column with a scalar.  A missing value compares false
  both ways.
\<close>

definition ge_cells :: "column \<Rightarrow> real \<Rightarrow> column" where
  "ge_cells vs c = map (\<lambda>v. case v of Num x \<Rightarrow> Flag (x \<ge> c) | _ \<Rightarrow> Flag False) vs"

definition le_cells :: "column \<Rightarrow> real \<Rightarrow> column" where
  "le_cells vs c = map (\<lambda>v. case v of Num x \<Rightarrow> Flag (x \<le> c) | _ \<Rightarrow> Flag False) vs"

section \<open>Resampling\<close>

text \<open>
  Timestamps and durations are 64-bit counts of nanoseconds; the least 64-bit value is the
  missing timestamp.
\<close>

definition i64_max :: int where
  "i64_max = 9223372036854775807"

definition in_i64 :: "int \<Rightarrow> bool" where
  "in_i64 x = (- i64_max \<le> x \<and> x \<le> i64_max)"

text \<open>
  A parsed frequency: a tick of a fixed width in nanoseconds, whose bins are closed and
  labelled on the left, or the week that ends on Sunday, whose bins are closed and labelled
  on the right.
\<close>

datatype offset = Tick int | Week

text \<open>
  \<^verbatim>\<open>to_offset\<close>: the frequency strings read are an optional count, optional spaces after
  the count, and one of the units below (the form of the default \<^verbatim>\<open>"1s"\<close>), and the
  week \<^verbatim>\<open>"W"\<close>.  A count of zero is read as it stands.  Every other string is outside
  the embedding, whether the library accepts it (months, sums of units, fractions) or not.
\<close>

definition is_digit :: "char \<Rightarrow> bool" where
  "is_digit c = (c \<in> set ''0123456789'')"

definition digit_val :: "char \<Rightarrow> nat" where
  "digit_val c = of_char c - 48"

definition tick_units :: "(string \<times> int) list" where
  "tick_units = [(''ns'', 1), (''us'', 1000), (''ms'', 1000000), (''s'', 1000000000),
                 (''min'', 60000000000), (''h'', 3600000000000), (''D'', 86400000000000)]"

definition to_offset :: "string \<Rightarrow> error + offset" where
  "to_offset s =
     (let ds = takeWhile is_digit s;
          n = (if ds = [] then 1 else int (foldl (\<lambda>a d. 10 * a + digit_val d) 0 ds));
          name = (if ds = [] then s else dropWhile (\<lambda>c. c = CHR '' '') (dropWhile is_digit s))
      in if name = ''W'' then (if n = 1 then Inr Week else Inl Unmodelled)
         else case map_of tick_units name of
                None \<Rightarrow> Inl Unmodelled
              | Some u \<Rightarrow> Inr (Tick (n * u)))"

fun stamps :: "column \<Rightarrow> int list option" where
  "stamps [] = Some []"
| "stamps (Stamp t # cs) = (case stamps cs of None \<Rightarrow> None | Some ts \<Rightarrow> Some (t # ts))"
| "stamps (c # cs) = None"

fun nums :: "column \<Rightarrow> real list" where
  "nums [] = []"
| "nums (Num x # cs) = x # nums cs"
| "nums (c # cs) = nums cs"

text \<open>The mean of a group skips missing values; the mean of nothing is missing.\<close>

definition mean_cells :: "column \<Rightarrow> cell" where
  "mean_cells cs =
     (let xs = nums cs in if xs = [] then NaN else Num (sum_list xs / real (length xs)))"

text \<open>\<^verbatim>\<open>frame.set_index(name)\<close>: the column becomes the index.\<close>

definition set_index :: "frame \<Rightarrow> string \<Rightarrow> error + frame" where
  "set_index f name = (case map_of (cols f) name of
       None \<Rightarrow> Inl KeyError
     | Some c \<Rightarrow> Inr \<lparr>idx = Some (name, c), cols = filter (\<lambda>p. fst p \<noteq> name) (cols f)\<rparr>)"

text \<open>
  The bins of \<^verbatim>\<open>resample\<close> for a tick (closed on the left, labelled by the left edge,
  origin at midnight of the first day): the first edge is the earliest timestamp rounded
  down to a multiple of the width counted from the origin, the last edge is the latest
  timestamp rounded up likewise, and there is one bin from every edge but the last, whether
  samples fall into it or not.  The width, the origin and the edges are 64-bit values: the
  call fails when one of them is not, the range of the edges being generated up to half a
  width past the last edge.  A width of zero fails in the remainder by the width.
\<close>

definition day_ns :: int where
  "day_ns = 86400000000000"

definition bin_edges :: "int list \<Rightarrow> int \<Rightarrow> error + int list" where
  "bin_edges ts w =
     (if ts = [] then Inr []
      else if \<not> in_i64 w then Inl OutOfBounds
      else let first = Min (set ts);
               last = Max (set ts);
               origin = (first div day_ns) * day_ns
           in if \<not> in_i64 origin then Inl OutOfBounds
              else if w = 0 then Inl ZeroDivisionError
              else let fresult = first - (first - origin) mod w;
                       lresult = last - (last - origin) mod w + w
                   in if \<not> in_i64 fresult \<or> \<not> in_i64 (lresult + w div 2 + 1)
                      then Inl OutOfBounds
                      else Inr (map (\<lambda>k. fresult + int k * w)
                                  [0 ..< nat ((lresult - fresult) div w)]))"

definition in_bin :: "int list \<Rightarrow> column \<Rightarrow> int \<Rightarrow> int \<Rightarrow> column" where
  "in_bin ts vs edge w = map snd (filter (\<lambda>(t, v). edge \<le> t \<and> t < edge + w) (zip ts vs))"

text \<open>
  The bins of \<^verbatim>\<open>resample\<close> for the week: the range runs over the Sundays from the last
  one before the day of the earliest timestamp to the first one after the day of the latest
  timestamp (day 0, the first of January 1970, is a Thursday); the edge of a bin is the last
  nanosecond of its Sunday; when the latest timestamp is not after the last edge but one,
  the last Sunday is dropped.  A bin holds the timestamps after the edge before it, up to
  its own edge, and is labelled by its own Sunday: the labels are the Sundays but the
  first.
\<close>

definition week_binner :: "int list \<Rightarrow> error + int list" where
  "week_binner ts =
     (if ts = [] then Inr []
      else let dmin = Min (set ts) div day_ns;
               dmax = Max (set ts) div day_ns;
               first = (dmin - 1 - (dmin - 4) mod 7) * day_ns;
               last = (dmax + 1 + (2 - dmax) mod 7) * day_ns;
               binner = map (\<lambda>k. first + int k * (7 * day_ns))
                          [0 ..< nat ((last - first) div (7 * day_ns)) + 1]
           in if \<not> in_i64 first \<or> \<not> in_i64 (last + day_ns) then Inl OutOfBounds
              else if Max (set ts) < last - 7 * day_ns + day_ns - 1 then Inr (butlast binner)
              else Inr binner)"

definition in_week :: "int list \<Rightarrow> column \<Rightarrow> int \<Rightarrow> column" where
  "in_week ts vs sunday =
     map snd (filter (\<lambda>(t, v). sunday - 7 * day_ns + day_ns - 1 < t \<and> t \<le> sunday + day_ns - 1)
                (zip ts vs))"

text \<open>\<^verbatim>\<open>indexed.resample(interval).mean()\<close>.\<close>

definition resample_mean :: "frame \<Rightarrow> string \<Rightarrow> error + frame" where
  "resample_mean f interval = (case idx f of
       None \<Rightarrow> Inl TypeError
     | Some (name, ic) \<Rightarrow> (case stamps ic of
         None \<Rightarrow> Inl TypeError
       | Some ts \<Rightarrow> (case to_offset interval of
           Inl e \<Rightarrow> Inl e
         | Inr (Tick w) \<Rightarrow> (case bin_edges ts w of
             Inl e \<Rightarrow> Inl e
           | Inr edges \<Rightarrow>
               Inr \<lparr>idx = Some (name, map Stamp edges),
                    cols = map (\<lambda>(n, vs). (n, map (\<lambda>e. mean_cells (in_bin ts vs e w)) edges))
                             (cols f)\<rparr>)
         | Inr Week \<Rightarrow> (case week_binner ts of
             Inl e \<Rightarrow> Inl e
           | Inr binner \<Rightarrow>
               Inr \<lparr>idx = Some (name, map Stamp (tl binner)),
                    cols = map (\<lambda>(n, vs). (n, map (\<lambda>e. mean_cells (in_week ts vs e)) (tl binner)))
                             (cols f)\<rparr>))))"

text \<open>\<^verbatim>\<open>frame.reset_index()\<close>: the named index becomes the first column.\<close>

definition reset_index :: "frame \<Rightarrow> error + frame" where
  "reset_index f = (case idx f of
       None \<Rightarrow> Inl Unmodelled
     | Some (name, c) \<Rightarrow> Inr \<lparr>idx = None, cols = (name, c) # cols f\<rparr>)"

section \<open>The backward as-of join\<close>

text \<open>
  The join scans both key arrays once.  For each left key the right position advances
  while the right key there is at most the left key, and steps back by one: the position
  found is the last right row at or before the left key, or -1 when there is none.  The
  next left key resumes from that position.
\<close>

function advance :: "int list \<Rightarrow> int \<Rightarrow> nat \<Rightarrow> nat" where
  "advance right_values l pos =
     (if pos < length right_values \<and> right_values ! pos \<le> l
      then advance right_values l (Suc pos) else pos)"
  by pat_completeness auto
termination
  by (relation "measure (\<lambda>(rv, l, pos). length rv - pos)") auto

declare advance.simps [simp del]

fun asof_join_backward :: "int list \<Rightarrow> int list \<Rightarrow> int \<Rightarrow> int list" where
  "asof_join_backward [] right_values right_pos = []"
| "asof_join_backward (l # ls) right_values right_pos =
     (let start = (if right_pos < 0 then 0 else right_pos);
          found = int (advance right_values l (nat start)) - 1
      in found # asof_join_backward ls right_values found)"

definition take_rows :: "column \<Rightarrow> int list \<Rightarrow> column" where
  "take_rows c indexer = map (\<lambda>i. if i < 0 then NaN else c ! nat i) indexer"

text \<open>
  \<^verbatim>\<open>pd.merge_asof(left, right, on=key)\<close>: both key columns must exist and be sorted.
  The result has the columns of the left frame followed by the other columns of the right
  frame, taken at the matched rows; a column name that occurs on both sides gets the
  suffix \<^verbatim>\<open>_x\<close> on the left and \<^verbatim>\<open>_y\<close> on the right.
\<close>

definition merge_asof :: "frame \<Rightarrow> frame \<Rightarrow> string \<Rightarrow> error + frame" where
  "merge_asof left right on = (case map_of (cols left) on of
       None \<Rightarrow> Inl KeyError
     | Some lk \<Rightarrow> (case map_of (cols right) on of
         None \<Rightarrow> Inl KeyError
       | Some rk \<Rightarrow> (case stamps lk of
           None \<Rightarrow> Inl Unmodelled
         | Some lv \<Rightarrow> (case stamps rk of
             None \<Rightarrow> Inl Unmodelled
           | Some rv \<Rightarrow>
               if \<not> sorted lv then Inl ValueError
               else if \<not> sorted rv then Inl ValueError
               else
                 let indexer = asof_join_backward lv rv 0;
                     rcols = filter (\<lambda>p. fst p \<noteq> on) (cols right);
                     overlap = filter (\<lambda>n. n \<in> set (map fst rcols)) (map fst (cols left))
                 in Inr \<lparr>idx = None,
                         cols =
                           map (\<lambda>(n, c). (if n \<in> set overlap then n @ ''_x'' else n, c))
                             (cols left) @
                           map (\<lambda>(n, c). (if n \<in> set overlap then n @ ''_y'' else n,
                                           take_rows c indexer))
                             rcols\<rparr>))))"

section \<open>The estimator\<close>

definition default_mvpa_cutpoint :: real where
  "default_mvpa_cutpoint = 69 / 1000"

definition default_sb_cutpoint :: real where
  "default_sb_cutpoint = 15 / 1000"

definition default_interval :: "string option" where
  "default_interval = Some ''1s''"

text \<open>\<^verbatim>\<open>data.set_index("Time").resample(interval).mean().reset_index()\<close>, a new
  frame.\<close>

definition resampled :: "ref \<Rightarrow> string \<Rightarrow> ref py" where
  "resampled data interval =
     bnd (get_frame data) (\<lambda>d.
     bnd (lift (set_index d ''Time'')) (\<lambda>d1.
     bnd (lift (resample_mean d1 interval)) (\<lambda>d2.
     bnd (lift (reset_index d2)) (\<lambda>d3.
     alloc (Frame d3)))))"

text \<open>\<^verbatim>\<open>frame["EMNO"].values\<close> of the frame a name is bound to.\<close>

definition column_values :: "ref \<Rightarrow> string \<Rightarrow> column py" where
  "column_values r name = bnd (get_frame r) (\<lambda>f. lift (getitem f name))"

definition calculate_pa_levels ::
  "ref \<Rightarrow> ref \<Rightarrow> real \<Rightarrow> real \<Rightarrow> string option \<Rightarrow> cell list list py" where
  "calculate_pa_levels time acceleration mvpa_cutpoint sb_cutpoint interval =
     bnd (pd_DataFrame acceleration [''Y'', ''X'', ''Z'']) (\<lambda>data.
     bnd (np_stamps time) (\<lambda>tv.
     bnd (loc_set data ''Time'' tv) (\<lambda>u1.
     bnd (calculate_vector_magnitude acceleration True True) (\<lambda>enmo.
     bnd (loc_set data ''EMNO'' enmo) (\<lambda>u2.
     bnd (case interval of
            None \<Rightarrow> ret data
          | Some s \<Rightarrow> if s \<noteq> [] then resampled data s else ret data) (\<lambda>tmp.
     bnd (column_values tmp ''EMNO'') (\<lambda>e1.
     bnd (loc_set tmp ''MVPA'' (ge_cells e1 mvpa_cutpoint)) (\<lambda>u3.
     bnd (column_values tmp ''EMNO'') (\<lambda>e2.
     bnd (loc_set tmp ''SB'' (le_cells e2 sb_cutpoint)) (\<lambda>u4.
     bnd (get_frame data) (\<lambda>left.
     bnd (get_frame tmp) (\<lambda>t.
     bnd (lift (getitems t [''Time'', ''MVPA'', ''SB''])) (\<lambda>right.
     bnd (lift (merge_asof left right ''Time'')) (\<lambda>merged.
     bnd (lift (getitems merged [''MVPA'', ''SB''])) (\<lambda>res.
     ret (frame_values res))))))))))))))))"

section \<open>Notions used to state the properties\<close>

text \<open>The number of right keys at or before a left key.\<close>

definition count_le :: "int list \<Rightarrow> int \<Rightarrow> nat" where
  "count_le rv l = length (filter (\<lambda>r. r \<le> l) rv)"

text \<open>The origin of the bins and the left edge of the window that holds a timestamp.\<close>

definition origin :: "int list \<Rightarrow> int" where
  "origin ts = (Min (set ts) div day_ns) * day_ns"

definition window_start :: "int list \<Rightarrow> int \<Rightarrow> int \<Rightarrow> int" where
  "window_start ts w t = t - (t - origin ts) mod w"

text \<open>The edges that \<open>bin_edges\<close> yields when it yields any.\<close>

definition tick_labels :: "int list \<Rightarrow> int \<Rightarrow> int list" where
  "tick_labels ts w =
     (if ts = [] then []
      else map (\<lambda>k. window_start ts w (Min (set ts)) + int k * w)
             [0 ..< nat ((window_start ts w (Max (set ts)) + w - window_start ts w (Min (set ts))) div w)])"

text \<open>The ENMO of every sample, and the ENMO values and their mean over the window that
  holds the timestamp \<open>t\<close>.\<close>

definition enmo :: "(real \<times> real \<times> real) list \<Rightarrow> real list" where
  "enmo acc = map (vector_magnitude True True) acc"

definition epoch_values :: "int list \<Rightarrow> real list \<Rightarrow> int \<Rightarrow> int \<Rightarrow> real list" where
  "epoch_values ts xs w t =
     map snd (filter (\<lambda>(u, x). window_start ts w t \<le> u \<and> u < window_start ts w t + w) (zip ts xs))"

definition epoch_mean :: "int list \<Rightarrow> real list \<Rightarrow> int \<Rightarrow> int \<Rightarrow> real" where
  "epoch_mean ts xs w t =
     sum_list (epoch_values ts xs w t) / real (length (epoch_values ts xs w t))"

text \<open>The frame bound to \<^verbatim>\<open>data\<close> before the branch on \<^verbatim>\<open>interval\<close>, and the frame bound
  to \<^verbatim>\<open>tmp\<close> after the two label columns were added on the resampling path.\<close>

definition data_frame :: "int list \<Rightarrow> (real \<times> real \<times> real) list \<Rightarrow> frame" where
  "data_frame ts acc = \<lparr>idx = None,
     cols = [(''Y'', map (\<lambda>(y, x, z). Num y) acc),
             (''X'', map (\<lambda>(y, x, z). Num x) acc),
             (''Z'', map (\<lambda>(y, x, z). Num z) acc),
             (''Time'', map Stamp ts),
             (''EMNO'', map (\<lambda>a. Num (vector_magnitude True True a)) acc)]\<rparr>"

definition window_means :: "int list \<Rightarrow> column \<Rightarrow> int \<Rightarrow> column" where
  "window_means ts vs w = map (\<lambda>e. mean_cells (in_bin ts vs e w)) (tick_labels ts w)"

definition tmp_frame ::
  "int list \<Rightarrow> (real \<times> real \<times> real) list \<Rightarrow> int \<Rightarrow> real \<Rightarrow> real \<Rightarrow> frame" where
  "tmp_frame ts acc w mv sb = \<lparr>idx = None,
     cols = [(''Time'', map Stamp (tick_labels ts w)),
             (''Y'', window_means ts (map (\<lambda>(y, x, z). Num y) acc) w),
             (''X'', window_means ts (map (\<lambda>(y, x, z). Num x) acc) w),
             (''Z'', window_means ts (map (\<lambda>(y, x, z). Num z) acc) w),
             (''EMNO'', window_means ts (map (\<lambda>a. Num (vector_magnitude True True a)) acc) w),
             (''MVPA'',
              ge_cells (window_means ts (map (\<lambda>a. Num (vector_magnitude True True a)) acc) w) mv),
             (''SB'',
              le_cells (window_means ts (map (\<lambda>a. Num (vector_magnitude True True a)) acc) w) sb)]\<rparr>"

text \<open>The rows returned on the resampling path: one pair of flags per sample, from the mean
  ENMO of the window that holds the sample.\<close>

definition pa_rows ::
  "int list \<Rightarrow> (real \<times> real \<times> real) list \<Rightarrow> int \<Rightarrow> real \<Rightarrow> real \<Rightarrow> cell list list" where
  "pa_rows ts acc w mv sb =
     map (\<lambda>t. [Flag (mv \<le> epoch_mean ts (enmo acc) w t), Flag (epoch_mean ts (enmo acc) w t \<le> sb)]) ts"

text \<open>
  What a call yields, as a function of the two arrays it is given: the frame of the
  resampling, the two label columns added to a frame, and the join with the selection of
  the result, each without the store.
\<close>

definition resampled_frame :: "frame \<Rightarrow> string \<Rightarrow> error + frame" where
  "resampled_frame d s = (case set_index d ''Time'' of
       Inl e \<Rightarrow> Inl e
     | Inr d1 \<Rightarrow> (case resample_mean d1 s of
         Inl e \<Rightarrow> Inl e
       | Inr d2 \<Rightarrow> reset_index d2))"

definition labelled :: "frame \<Rightarrow> real \<Rightarrow> real \<Rightarrow> error + frame" where
  "labelled f mv sb = (case getitem f ''EMNO'' of
       Inl e \<Rightarrow> Inl e
     | Inr e1 \<Rightarrow> (case set_column f ''MVPA'' (ge_cells e1 mv) of
         Inl e \<Rightarrow> Inl e
       | Inr f1 \<Rightarrow> (case getitem f1 ''EMNO'' of
           Inl e \<Rightarrow> Inl e
         | Inr e2 \<Rightarrow> set_column f1 ''SB'' (le_cells e2 sb))))"

definition joined :: "frame \<Rightarrow> frame \<Rightarrow> error + cell list list" where
  "joined left t = (case getitems t [''Time'', ''MVPA'', ''SB''] of
       Inl e \<Rightarrow> Inl e
     | Inr right \<Rightarrow> (case merge_asof left right ''Time'' of
         Inl e \<Rightarrow> Inl e
       | Inr merged \<Rightarrow> (case getitems merged [''MVPA'', ''SB''] of
           Inl e \<Rightarrow> Inl e
         | Inr res \<Rightarrow> Inr (frame_values res))))"




section \<open>Basic facts\<close>

lemma nums_map_Num: "nums (map Num xs) = xs"
  by (induction xs) auto

lemma stamps_map_Stamp: "stamps (map Stamp ts) = Some ts"
  by (induction ts) auto

lemma to_offset_1s: "to_offset ''1s'' = Inr (Tick 1000000000)"
  by (simp add: to_offset_def is_digit_def digit_val_def tick_units_def)


lemma to_offset_W: "to_offset ''W'' = Inr Week"
  by (simp add: to_offset_def is_digit_def)


section \<open>The scan of the as-of join\<close>

text \<open>On sorted keys the scan finds, for every left key, the number of right keys at or
  before it, less one.\<close>

lemma count_le_Nil [simp]: "count_le [] l = 0"
  by (simp add: count_le_def)

lemma count_le_Cons [simp]: "count_le (x # xs) l = (if x \<le> l then Suc (count_le xs l) else count_le xs l)"
  by (simp add: count_le_def)

lemma count_le_length: "count_le rv l \<le> length rv"
  by (simp add: count_le_def)

lemma count_le_mono: "l \<le> l' \<Longrightarrow> count_le rv l \<le> count_le rv l'"
  by (induction rv) auto

lemma sorted_above_count: "sorted rv \<Longrightarrow> \<forall>x\<in>set rv. l < x \<Longrightarrow> count_le rv l = 0"
  by (induction rv) auto

lemma sorted_nth_le_iff:
  "sorted rv \<Longrightarrow> p < length rv \<Longrightarrow> (rv ! p \<le> l) = (p < count_le rv l)"
proof (induction rv arbitrary: p)
  case Nil
  then show ?case by simp
next
  case (Cons x xs)
  show ?case
  proof (cases "x \<le> l")
    case True
    with Cons show ?thesis by (cases p) auto
  next
    case False
    with Cons.prems have "\<forall>y\<in>set (x # xs). l < y" by auto
    moreover from this Cons.prems have "l < (x # xs) ! p" by (meson nth_mem)
    ultimately show ?thesis using Cons.prems(1) sorted_above_count[of "x # xs" l] by simp
  qed
qed

lemma advance_count:
  "sorted rv \<Longrightarrow> p \<le> count_le rv l \<Longrightarrow> advance rv l p = count_le rv l"
proof (induction rv l p rule: advance.induct)
  case (1 rv l p)
  show ?case
  proof (cases "p < length rv \<and> rv ! p \<le> l")
    case True
    then have "p < count_le rv l" using sorted_nth_le_iff[OF "1.prems"(1), of p l] by blast
    then have "advance rv l (Suc p) = count_le rv l" using "1.IH" True "1.prems"(1) by simp
    then show ?thesis using True by (subst advance.simps) simp
  next
    case False
    have "\<not> p < count_le rv l"
    proof
      assume lt: "p < count_le rv l"
      then have "p < length rv" using count_le_length[of rv l] by linarith
      then show False using False lt sorted_nth_le_iff[OF "1.prems"(1), of p l] by blast
    qed
    then have "p = count_le rv l" using "1.prems"(2) by simp
    then show ?thesis using False by (subst advance.simps) auto
  qed
qed

lemma asof_join_backward_count:
  "sorted rv \<Longrightarrow> sorted lv \<Longrightarrow> (\<forall>l\<in>set lv. pos \<le> int (count_le rv l)) \<Longrightarrow>
   asof_join_backward lv rv pos = map (\<lambda>l. int (count_le rv l) - 1) lv"
proof (induction lv arbitrary: pos)
  case Nil
  then show ?case by simp
next
  case (Cons l ls)
  have a: "advance rv l (nat (if pos < 0 then 0 else pos)) = count_le rv l"
    using Cons.prems by (intro advance_count) auto
  have "\<forall>l'\<in>set ls. int (count_le rv l) - 1 \<le> int (count_le rv l')"
    using Cons.prems(2) count_le_mono[of l _ rv] by fastforce
  then have "asof_join_backward ls rv (int (count_le rv l) - 1) = map (\<lambda>l. int (count_le rv l) - 1) ls"
    using Cons.IH[of "int (count_le rv l) - 1"] Cons.prems by simp
  then show ?case using a by (simp add: Let_def)
qed


section \<open>The bins of the resampling\<close>

lemma mult_le_iff_le_div: "0 < (w::int) \<Longrightarrow> (k * w \<le> x) = (k \<le> x div w)"
proof
  assume w: "0 < w" and "k * w \<le> x"
  then have "(k * w) div w \<le> x div w" by (intro zdiv_mono1) auto
  then show "k \<le> x div w" using w by simp
next
  assume w: "0 < w" and "k \<le> x div w"
  then have "k * w \<le> (x div w) * w" by simp
  also have "\<dots> \<le> x" using w
    by (metis mult.commute pos_mod_sign le_add_same_cancel1 mult_div_mod_eq)
  finally show "k * w \<le> x" .
qed

lemma count_le_arith:
  "0 < w \<Longrightarrow> count_le (map (\<lambda>k. a + int k * w) [0 ..< n]) t =
     (if t < a then 0 else min n (nat ((t - a) div w) + 1))"
proof (induction n)
  case 0
  then show ?case by simp
next
  case (Suc n)
  have split: "count_le (xs @ [x]) t = count_le xs t + (if x \<le> t then 1 else 0)" for xs x
    by (simp add: count_le_def)
  have "(int n * w \<le> t - a) = (int n \<le> (t - a) div w)"
    using Suc.prems by (rule mult_le_iff_le_div)
  moreover have "0 \<le> (t - a) div w \<longleftrightarrow> a \<le> t"
    using Suc.prems by (simp add: pos_imp_zdiv_nonneg_iff)
  ultimately have iff: "(a + int n * w \<le> t) = (a \<le> t \<and> n \<le> nat ((t - a) div w))"
    using Suc.prems by auto
  have L: "count_le (map (\<lambda>k. a + int k * w) [0 ..< Suc n]) t =
      count_le (map (\<lambda>k. a + int k * w) [0 ..< n]) t + (if a + int n * w \<le> t then 1 else 0)"
    by (simp add: split)
  show ?case
    unfolding L Suc.IH[OF Suc.prems] iff by auto
qed


lemma window_start_eq: "window_start ts w t = origin ts + w * ((t - origin ts) div w)"
  unfolding window_start_def using mult_div_mod_eq[of w "t - origin ts"] by linarith

lemma window_start_le: "0 < w \<Longrightarrow> window_start ts w t \<le> t"
  unfolding window_start_def by simp

lemma window_start_gt: "0 < w \<Longrightarrow> t < window_start ts w t + w"
  unfolding window_start_def using pos_mod_bound[of w "t - origin ts"] by linarith

lemma tick_labels_eq:
  assumes "ts \<noteq> []" "0 < w"
  shows "tick_labels ts w =
    map (\<lambda>k. window_start ts w (Min (set ts)) + int k * w)
      [0 ..< nat ((Max (set ts) - origin ts) div w - (Min (set ts) - origin ts) div w + 1)]"
proof -
  let ?o = "origin ts"
  let ?f = "Min (set ts)" and ?l = "Max (set ts)"
  have "window_start ts w ?l + w - window_start ts w ?f =
        w * ((?l - ?o) div w - (?f - ?o) div w + 1)"
    by (simp add: window_start_eq algebra_simps)
  then have "(window_start ts w ?l + w - window_start ts w ?f) div w =
        (?l - ?o) div w - (?f - ?o) div w + 1"
    using assms(2) by simp
  then show ?thesis
    using assms(1) unfolding tick_labels_def by simp
qed

text \<open>When the bins of a tick are computed at all, they are these edges.\<close>

lemma bin_edges_Inr:
  assumes "bin_edges ts w = Inr edges"
  shows "edges = tick_labels ts w"
  using assms unfolding bin_edges_def tick_labels_def window_start_def origin_def Let_def
  by (auto split: if_splits simp: algebra_simps)


lemma edge_of_sample:
  assumes "0 < w" "t \<in> set ts"
  shows "\<exists>k < length (tick_labels ts w).
           int (count_le (tick_labels ts w) t) - 1 = int k \<and>
           tick_labels ts w ! k = window_start ts w t"
proof -
  let ?o = "origin ts"
  let ?f = "Min (set ts)" and ?l = "Max (set ts)"
  let ?q = "\<lambda>t. (t - ?o) div w"
  let ?n = "nat (?q ?l - ?q ?f + 1)"
  let ?k = "nat (?q t - ?q ?f)"
  from assms(2) have ne: "ts \<noteq> []" by auto
  have ft: "?f \<le> t" and tl: "t \<le> ?l" using assms(2) by auto
  have q1: "?q ?f \<le> ?q t" using ft assms(1) by (intro zdiv_mono1) auto
  have q2: "?q t \<le> ?q ?l" using tl assms(1) by (intro zdiv_mono1) auto
  have E: "tick_labels ts w = map (\<lambda>k. window_start ts w ?f + int k * w) [0 ..< ?n]"
    using tick_labels_eq[OF ne assms(1)] .
  have kn: "?k < ?n" using q1 q2 by linarith
  have d: "(t - window_start ts w ?f) div w = ?q t - ?q ?f"
  proof -
    have "t - window_start ts w ?f = (t - ?o) + (- (?q ?f)) * w"
      by (simp add: window_start_eq algebra_simps)
    then have "(t - window_start ts w ?f) div w = ((t - ?o) + (- (?q ?f)) * w) div w"
      by (rule arg_cong)
    also have "\<dots> = (- (?q ?f)) + (t - ?o) div w"
      using assms(1) by (intro div_mult_self1) simp
    finally show ?thesis by simp
  qed
  have m: "min ?n (?k + 1) = ?k + 1" using kn by linarith
  have nlt: "\<not> t < window_start ts w ?f"
    using window_start_le[OF assms(1), of ts ?f] ft by linarith
  have c: "count_le (tick_labels ts w) t = ?k + 1"
    unfolding E count_le_arith[OF assms(1)] d m using nlt by (simp only: if_False)
  have "tick_labels ts w ! ?k = window_start ts w ?f + int ?k * w"
    unfolding E using kn by simp
  also have "\<dots> = window_start ts w t"
    using q1 by (simp add: window_start_eq algebra_simps)
  finally have n: "tick_labels ts w ! ?k = window_start ts w t" .
  have "?k < length (tick_labels ts w)" unfolding E using kn by simp
  then show ?thesis using c n by (intro exI[of _ ?k]) simp
qed

lemma sorted_tick_labels: "0 < w \<Longrightarrow> sorted (tick_labels ts w)"
proof (cases "ts = []")
  case True
  then show ?thesis by (simp add: tick_labels_def)
next
  case False
  assume w: "0 < w"
  have "sorted (map (\<lambda>k. a + int k * w) [0 ..< n])" for a n
    using w by (induction n) (auto simp: sorted_append)
  then show ?thesis unfolding tick_labels_eq[OF False w] .
qed

section \<open>Windows and their means\<close>

lemma in_bin_map_Num:
  "in_bin ts (map Num xs) e w =
     map Num (map snd (filter (\<lambda>(u, x). e \<le> u \<and> u < e + w) (zip ts xs)))"
  unfolding in_bin_def
  by (induction ts xs rule: list_induct2') auto

lemma epoch_values_nonempty:
  assumes "0 < w" "length ts = length xs" "t \<in> set ts"
  shows "epoch_values ts xs w t \<noteq> []"
proof -
  from assms(3) obtain i where i: "i < length ts" "ts ! i = t"
    by (auto simp: in_set_conv_nth)
  then have "(t, xs ! i) \<in> set (zip ts xs)"
    using assms(2) by (auto simp: in_set_zip intro!: exI[of _ i])
  moreover have "window_start ts w t \<le> t \<and> t < window_start ts w t + w"
    using window_start_le[OF assms(1)] window_start_gt[OF assms(1)] by simp
  ultimately have "(t, xs ! i) \<in> set (filter (\<lambda>(u, x). window_start ts w t \<le> u \<and> u < window_start ts w t + w) (zip ts xs))"
    by simp
  then have "filter (\<lambda>(u, x). window_start ts w t \<le> u \<and> u < window_start ts w t + w) (zip ts xs) \<noteq> []"
    by (metis empty_iff list.set(1))
  then show ?thesis unfolding epoch_values_def by simp
qed

lemma mean_cells_window:
  assumes "0 < w" "length ts = length xs" "t \<in> set ts"
  shows "mean_cells (in_bin ts (map Num xs) (window_start ts w t) w) = Num (epoch_mean ts xs w t)"
  using epoch_values_nonempty[OF assms]
  unfolding mean_cells_def in_bin_map_Num nums_map_Num epoch_mean_def epoch_values_def Let_def
  by simp

lemma window_label_row:
  assumes "0 < w" "length ts = length xs" "t \<in> set ts"
  shows "take_rows (map f (window_means ts (map Num xs) w)) [int (count_le (tick_labels ts w) t) - 1]
         = [f (Num (epoch_mean ts xs w t))]"
proof -
  from edge_of_sample[OF assms(1,3)] obtain k where
    k: "k < length (tick_labels ts w)" "int (count_le (tick_labels ts w) t) - 1 = int k"
       "tick_labels ts w ! k = window_start ts w t" by blast
  show ?thesis
    unfolding take_rows_def k(2) window_means_def
    using k(1,3) mean_cells_window[OF assms] by simp
qed

lemma take_rows_map:
  "take_rows c (map g ts) = concat (map (\<lambda>t. take_rows c [g t]) ts)"
  unfolding take_rows_def by (induction ts) auto

lemma label_column:
  assumes "0 < w" "length ts = length xs"
  shows "take_rows (map f (window_means ts (map Num xs) w))
           (map (\<lambda>t. int (count_le (tick_labels ts w) t) - 1) ts)
         = map (\<lambda>t. f (Num (epoch_mean ts xs w t))) ts"
proof -
  have "concat (map (\<lambda>t. take_rows (map f (window_means ts (map Num xs) w))
                  [int (count_le (tick_labels ts w) t) - 1]) ts)
      = concat (map (\<lambda>t. [f (Num (epoch_mean ts xs w t))]) ts)"
    by (rule arg_cong[where f = concat], rule map_cong[OF refl])
       (rule window_label_row[OF assms])
  then show ?thesis unfolding take_rows_map[of _ "\<lambda>t. int (count_le (tick_labels ts w) t) - 1"]
    by simp
qed


lemma asof_edges:
  assumes "0 < w" "sorted ts"
  shows "asof_join_backward ts (tick_labels ts w) 0 =
         map (\<lambda>t. int (count_le (tick_labels ts w) t) - 1) ts"
  using sorted_tick_labels[OF assms(1)] assms(2)
  by (rule asof_join_backward_count) simp

lemma frame_values_two:
  "frame_values \<lparr>idx = None, cols = [(a, map f ts), (b, map g ts)]\<rparr> = map (\<lambda>t. [f t, g t]) ts"
  unfolding frame_values_def nrows_def
  by (rule nth_equalityI) auto

section \<open>Running the estimator\<close>

text \<open>The first five statements build the frame \<open>data_frame\<close> in a new object.\<close>

lemma run_prefix:
  assumes "rt < length h" "h ! rt = TimeArr ts" "ra < length h" "h ! ra = AccArr acc"
    "length ts = length acc"
  shows "bnd (pd_DataFrame ra [''Y'', ''X'', ''Z'']) (\<lambda>data.
     bnd (np_stamps rt) (\<lambda>tv.
     bnd (loc_set data ''Time'' tv) (\<lambda>u1.
     bnd (calculate_vector_magnitude ra True True) (\<lambda>enmo.
     bnd (loc_set data ''EMNO'' enmo) (\<lambda>u2. k data))))) h
     = k (length h) (h @ [Frame (data_frame ts acc)])"
  using assms
  by (simp add: bnd_def pd_DataFrame_def deref_def DataFrame_def lift_def alloc_def np_stamps_def
      ret_def loc_set_def get_frame_def set_column_def nrows_def store_def
      calculate_vector_magnitude_def data_frame_def nth_append)

text \<open>The two label columns are added to the frame that \<^verbatim>\<open>tmp\<close> names, in place.\<close>

lemma run_labels:
  assumes "r < length h" "h ! r = Frame f"
  shows "labelled f mv sb = Inr t \<Longrightarrow>
     bnd (column_values r ''EMNO'') (\<lambda>e1.
     bnd (loc_set r ''MVPA'' (ge_cells e1 mv)) (\<lambda>u3.
     bnd (column_values r ''EMNO'') (\<lambda>e2.
     bnd (loc_set r ''SB'' (le_cells e2 sb)) (\<lambda>u4. k)))) h = k (h[r := Frame t])"
  and "labelled f mv sb = Inl e \<Longrightarrow>
     fst (bnd (column_values r ''EMNO'') (\<lambda>e1.
     bnd (loc_set r ''MVPA'' (ge_cells e1 mv)) (\<lambda>u3.
     bnd (column_values r ''EMNO'') (\<lambda>e2.
     bnd (loc_set r ''SB'' (le_cells e2 sb)) (\<lambda>u4. k)))) h) = Inl e"
  using assms
  by (auto simp add: bnd_def column_values_def get_frame_def deref_def ret_def lift_def
      loc_set_def store_def labelled_def split: sum.splits)

lemma run_join:
  assumes "rd < length h" "h ! rd = Frame d" "r < length h" "h ! r = Frame t"
  shows "bnd (get_frame rd) (\<lambda>left.
     bnd (get_frame r) (\<lambda>t.
     bnd (lift (getitems t [''Time'', ''MVPA'', ''SB''])) (\<lambda>right.
     bnd (lift (merge_asof left right ''Time'')) (\<lambda>merged.
     bnd (lift (getitems merged [''MVPA'', ''SB''])) (\<lambda>res.
     ret (frame_values res)))))) h = (joined d t, h)"
  using assms
  by (auto simp add: bnd_def get_frame_def deref_def ret_def lift_def joined_def
      split: sum.splits)

lemma run_resampled:
  assumes "rd < length h" "h ! rd = Frame d"
  shows "resampled rd s h = (case resampled_frame d s of
       Inl e \<Rightarrow> (Inl e, h)
     | Inr f \<Rightarrow> (Inr (length h), h @ [Frame f]))"
  using assms
  by (auto simp add: resampled_def bnd_def get_frame_def deref_def ret_def lift_def alloc_def
      resampled_frame_def split: sum.splits)


text \<open>A call with an interval, in three steps: the resampling, the labels, the join.\<close>

lemma run_some:
  assumes "rt < length h" "h ! rt = TimeArr ts" "ra < length h" "h ! ra = AccArr acc"
    "length ts = length acc" "s \<noteq> []"
  shows "resampled_frame (data_frame ts acc) s = Inl e \<Longrightarrow>
       fst (calculate_pa_levels rt ra mv sb (Some s) h) = Inl e"
    and "resampled_frame (data_frame ts acc) s = Inr f \<Longrightarrow> labelled f mv sb = Inl e \<Longrightarrow>
       fst (calculate_pa_levels rt ra mv sb (Some s) h) = Inl e"
    and "resampled_frame (data_frame ts acc) s = Inr f \<Longrightarrow> labelled f mv sb = Inr t \<Longrightarrow>
       calculate_pa_levels rt ra mv sb (Some s) h =
         (joined (data_frame ts acc) t, h @ [Frame (data_frame ts acc), Frame t])"
proof -
  let ?d = "data_frame ts acc"
  let ?h1 = "h @ [Frame ?d]"
  have d: "length h < length ?h1" "?h1 ! length h = Frame ?d" by simp_all
  {
    assume r: "resampled_frame ?d s = Inl e"
    show "fst (calculate_pa_levels rt ra mv sb (Some s) h) = Inl e"
      unfolding calculate_pa_levels_def
      apply (subst run_prefix[OF assms(1-5)])
      using assms(6) r
      apply (simp add: bnd_def run_resampled[OF d])
      done
  }
  {
    assume r: "resampled_frame ?d s = Inr f"
    let ?h2 = "?h1 @ [Frame f]"
    have t: "length ?h1 < length ?h2" "?h2 ! length ?h1 = Frame f"
      by (simp_all add: nth_append)
    have step: "calculate_pa_levels rt ra mv sb (Some s) h =
      bnd (column_values (length ?h1) ''EMNO'') (\<lambda>e1.
      bnd (loc_set (length ?h1) ''MVPA'' (ge_cells e1 mv)) (\<lambda>u3.
      bnd (column_values (length ?h1) ''EMNO'') (\<lambda>e2.
      bnd (loc_set (length ?h1) ''SB'' (le_cells e2 sb)) (\<lambda>u4.
      bnd (get_frame (length h)) (\<lambda>left.
      bnd (get_frame (length ?h1)) (\<lambda>t.
      bnd (lift (getitems t [''Time'', ''MVPA'', ''SB''])) (\<lambda>right.
      bnd (lift (merge_asof left right ''Time'')) (\<lambda>merged.
      bnd (lift (getitems merged [''MVPA'', ''SB''])) (\<lambda>res.
      ret (frame_values res)))))))))) ?h2"
      unfolding calculate_pa_levels_def
      apply (subst run_prefix[OF assms(1-5)])
      using assms(6) r
      apply (subst bnd_def)
      apply (simp add: run_resampled[OF d])
      done
    {
      assume l: "labelled f mv sb = Inl e"
      show "fst (calculate_pa_levels rt ra mv sb (Some s) h) = Inl e"
        unfolding step by (rule run_labels(2)[OF t l])
    }
    {
      assume l: "labelled f mv sb = Inr t"
      have j: "length h < length (?h2[length ?h1 := Frame t])"
        "?h2[length ?h1 := Frame t] ! length h = Frame ?d"
        "length ?h1 < length (?h2[length ?h1 := Frame t])"
        "?h2[length ?h1 := Frame t] ! length ?h1 = Frame t"
        by (simp_all add: nth_append list_update_append)
      show "calculate_pa_levels rt ra mv sb (Some s) h = (joined ?d t, h @ [Frame ?d, Frame t])"
        unfolding step run_labels(1)[OF t l] run_join[OF j]
        by (simp add: list_update_append)
    }
  }
qed

text \<open>A call without an interval: the labels go to the frame of \<^verbatim>\<open>data\<close>, which is then
  joined with itself.\<close>

lemma run_none:
  assumes "rt < length h" "h ! rt = TimeArr ts" "ra < length h" "h ! ra = AccArr acc"
    "length ts = length acc" "interval = None \<or> interval = Some []"
  shows "labelled (data_frame ts acc) mv sb = Inl e \<Longrightarrow>
       fst (calculate_pa_levels rt ra mv sb interval h) = Inl e"
    and "labelled (data_frame ts acc) mv sb = Inr t \<Longrightarrow>
       calculate_pa_levels rt ra mv sb interval h = (joined t t, h @ [Frame t])"
proof -
  let ?d = "data_frame ts acc"
  let ?h1 = "h @ [Frame ?d]"
  have d: "length h < length ?h1" "?h1 ! length h = Frame ?d" by simp_all
  have step: "calculate_pa_levels rt ra mv sb interval h =
      bnd (column_values (length h) ''EMNO'') (\<lambda>e1.
      bnd (loc_set (length h) ''MVPA'' (ge_cells e1 mv)) (\<lambda>u3.
      bnd (column_values (length h) ''EMNO'') (\<lambda>e2.
      bnd (loc_set (length h) ''SB'' (le_cells e2 sb)) (\<lambda>u4.
      bnd (get_frame (length h)) (\<lambda>left.
      bnd (get_frame (length h)) (\<lambda>t.
      bnd (lift (getitems t [''Time'', ''MVPA'', ''SB''])) (\<lambda>right.
      bnd (lift (merge_asof left right ''Time'')) (\<lambda>merged.
      bnd (lift (getitems merged [''MVPA'', ''SB''])) (\<lambda>res.
      ret (frame_values res)))))))))) ?h1"
    unfolding calculate_pa_levels_def
    apply (subst run_prefix[OF assms(1-5)])
    using assms(6)
    apply (subst bnd_def)
    apply (auto simp add: ret_def)
    done
  {
    assume l: "labelled ?d mv sb = Inl e"
    show "fst (calculate_pa_levels rt ra mv sb interval h) = Inl e"
      unfolding step by (rule run_labels(2)[OF d l])
  }
  {
    assume l: "labelled ?d mv sb = Inr t"
    have j: "length h < length (?h1[length h := Frame t])"
      "?h1[length h := Frame t] ! length h = Frame t"
      by (simp_all add: nth_append list_update_append)
    show "calculate_pa_levels rt ra mv sb interval h = (joined t t, h @ [Frame t])"
      unfolding step run_labels(1)[OF d l] run_join[OF j j]
      by (simp add: list_update_append)
  }
qed


text \<open>The three steps for a tick.\<close>

lemma resampled_tick:
  assumes "to_offset s = Inr (Tick w)" "bin_edges ts w = Inr edges"
  shows "resampled_frame (data_frame ts acc) s = Inr \<lparr>idx = None,
     cols = [(''Time'', map Stamp (tick_labels ts w)),
             (''Y'', window_means ts (map (\<lambda>(y, x, z). Num y) acc) w),
             (''X'', window_means ts (map (\<lambda>(y, x, z). Num x) acc) w),
             (''Z'', window_means ts (map (\<lambda>(y, x, z). Num z) acc) w),
             (''EMNO'', window_means ts (map (\<lambda>a. Num (vector_magnitude True True a)) acc) w)]\<rparr>"
  using assms bin_edges_Inr[OF assms(2)]
  by (simp add: resampled_frame_def data_frame_def set_index_def resample_mean_def
      reset_index_def stamps_map_Stamp window_means_def)

lemma labelled_tick:
  "labelled \<lparr>idx = None,
     cols = [(''Time'', map Stamp (tick_labels ts w)),
             (''Y'', window_means ts (map (\<lambda>(y, x, z). Num y) acc) w),
             (''X'', window_means ts (map (\<lambda>(y, x, z). Num x) acc) w),
             (''Z'', window_means ts (map (\<lambda>(y, x, z). Num z) acc) w),
             (''EMNO'', window_means ts (map (\<lambda>a. Num (vector_magnitude True True a)) acc) w)]\<rparr>
     mv sb = Inr (tmp_frame ts acc w mv sb)"
  by (simp add: labelled_def getitem_def set_column_def nrows_def tmp_frame_def
      ge_cells_def le_cells_def window_means_def)

lemma joined_tick_raw:
  assumes "0 < w"
  shows "joined (data_frame ts acc) (tmp_frame ts acc w mv sb) =
    (if sorted ts then
       Inr (frame_values \<lparr>idx = None, cols =
        [(''MVPA'', take_rows (ge_cells (window_means ts (map Num (enmo acc)) w) mv)
                     (asof_join_backward ts (tick_labels ts w) 0)),
         (''SB'', take_rows (le_cells (window_means ts (map Num (enmo acc)) w) sb)
                     (asof_join_backward ts (tick_labels ts w) 0))]\<rparr>)
     else Inl ValueError)"
proof -
  have e: "map Num (enmo acc) = map (\<lambda>a. Num (vector_magnitude True True a)) acc"
    by (simp add: enmo_def)
  show ?thesis
    unfolding e using sorted_tick_labels[OF assms, of ts]
    by (simp add: joined_def getitems_def tmp_frame_def data_frame_def merge_asof_def
        stamps_map_Stamp Let_def)
qed

lemma joined_tick:
  assumes "0 < w" "length ts = length acc" "sorted ts"
  shows "joined (data_frame ts acc) (tmp_frame ts acc w mv sb) = Inr (pa_rows ts acc w mv sb)"
proof -
  have len: "length ts = length (enmo acc)" using assms(2) by (simp add: enmo_def)
  show ?thesis
    unfolding joined_tick_raw[OF assms(1)] asof_edges[OF assms(1,3)] ge_cells_def le_cells_def
      label_column[OF assms(1) len] frame_values_two pa_rows_def
    using assms(3) by simp
qed

lemma run_interval_rows:
  assumes "rt < length h" "h ! rt = TimeArr ts" "ra < length h" "h ! ra = AccArr acc"
    "length ts = length acc" "s \<noteq> []" "to_offset s = Inr (Tick w)" "0 < w"
    "bin_edges ts w = Inr edges" "sorted ts"
  shows "calculate_pa_levels rt ra mv sb (Some s) h =
    (Inr (pa_rows ts acc w mv sb),
     h @ [Frame (data_frame ts acc), Frame (tmp_frame ts acc w mv sb)])"
  unfolding run_some(3)[OF assms(1-6) resampled_tick[OF assms(7,9)] labelled_tick]
    joined_tick[OF assms(8,5,10)]
  by simp

lemma run_unsorted:
  assumes "rt < length h" "h ! rt = TimeArr ts" "ra < length h" "h ! ra = AccArr acc"
    "length ts = length acc" "s \<noteq> []" "to_offset s = Inr (Tick w)" "0 < w"
    "bin_edges ts w = Inr edges" "\<not> sorted ts"
  shows "fst (calculate_pa_levels rt ra mv sb (Some s) h) = Inl ValueError"
  unfolding run_some(3)[OF assms(1-6) resampled_tick[OF assms(7,9)] labelled_tick]
    joined_tick_raw[OF assms(8)]
  using assms(10) by simp

text \<open>When the bins cannot be computed, the call fails with the error of the bins.\<close>

lemma run_no_bins:
  assumes "rt < length h" "h ! rt = TimeArr ts" "ra < length h" "h ! ra = AccArr acc"
    "length ts = length acc" "s \<noteq> []" "to_offset s = Inr (Tick w)" "bin_edges ts w = Inl e"
  shows "fst (calculate_pa_levels rt ra mv sb (Some s) h) = Inl e"
proof -
  have "resampled_frame (data_frame ts acc) s = Inl e"
    using assms(7,8)
    by (simp add: resampled_frame_def data_frame_def set_index_def resample_mean_def
        stamps_map_Stamp)
  then show ?thesis by (rule run_some(1)[OF assms(1-6)])
qed

text \<open>
  Without an interval the name \<^verbatim>\<open>tmp\<close> is bound to the frame of \<^verbatim>\<open>data\<close> itself, so
  the two label columns are added to \<^verbatim>\<open>data\<close>.  The join then finds \<^verbatim>\<open>MVPA\<close> and
  \<^verbatim>\<open>SB\<close> on both sides and renames them with suffixes, and the final selection of the
  columns \<^verbatim>\<open>MVPA\<close> and \<^verbatim>\<open>SB\<close> fails.
\<close>

lemma labelled_data:
  assumes "length ts = length acc"
  shows "labelled (data_frame ts acc) mv sb = Inr \<lparr>idx = None,
     cols = [(''Y'', map (\<lambda>(y, x, z). Num y) acc),
             (''X'', map (\<lambda>(y, x, z). Num x) acc),
             (''Z'', map (\<lambda>(y, x, z). Num z) acc),
             (''Time'', map Stamp ts),
             (''EMNO'', map (\<lambda>a. Num (vector_magnitude True True a)) acc),
             (''MVPA'', ge_cells (map (\<lambda>a. Num (vector_magnitude True True a)) acc) mv),
             (''SB'', le_cells (map (\<lambda>a. Num (vector_magnitude True True a)) acc) sb)]\<rparr>"
  using assms
  by (simp add: labelled_def getitem_def set_column_def nrows_def data_frame_def
      ge_cells_def le_cells_def)

lemma joined_self:
  "joined \<lparr>idx = None,
     cols = [(''Y'', cy), (''X'', cx), (''Z'', cz), (''Time'', map Stamp ts), (''EMNO'', ce),
             (''MVPA'', cm), (''SB'', cs)]\<rparr>
    \<lparr>idx = None,
     cols = [(''Y'', cy), (''X'', cx), (''Z'', cz), (''Time'', map Stamp ts), (''EMNO'', ce),
             (''MVPA'', cm), (''SB'', cs)]\<rparr>
   = Inl (if sorted ts then KeyError else ValueError)"
  by (simp add: joined_def getitems_def merge_asof_def stamps_map_Stamp Let_def)

lemma run_no_interval:
  assumes "rt < length h" "h ! rt = TimeArr ts" "ra < length h" "h ! ra = AccArr acc"
    "length ts = length acc" "interval = None \<or> interval = Some []"
  shows "fst (calculate_pa_levels rt ra mv sb interval h) =
    Inl (if sorted ts then KeyError else ValueError)"
  unfolding run_none(2)[OF assms labelled_data[OF assms(5)]] joined_self
  by simp



text \<open>The columns of the resampled frame.\<close>

lemma tmp_frame_cols:
  "getitem (tmp_frame ts acc w mv sb) ''Time'' = Inr (map Stamp (tick_labels ts w))"
  "getitem (tmp_frame ts acc w mv sb) ''EMNO'' = Inr (window_means ts (map Num (enmo acc)) w)"
  "getitem (tmp_frame ts acc w mv sb) ''MVPA'' =
     Inr (ge_cells (window_means ts (map Num (enmo acc)) w) mv)"
  "getitem (tmp_frame ts acc w mv sb) ''SB'' =
     Inr (le_cells (window_means ts (map Num (enmo acc)) w) sb)"
  by (simp_all add: getitem_def tmp_frame_def enmo_def comp_def)

lemma window_means_nth:
  assumes "k < length (tick_labels ts w)"
  shows "window_means ts (map Num xs) w ! k =
    (let vs = map snd (filter (\<lambda>(u, x). tick_labels ts w ! k \<le> u \<and> u < tick_labels ts w ! k + w) (zip ts xs))
     in if vs = [] then NaN else Num (sum_list vs / real (length vs)))"
  using assms
  unfolding window_means_def mean_cells_def in_bin_map_Num nums_map_Num
  by simp

lemma tick_labels_nth:
  assumes "0 < w" "k < length (tick_labels ts w)"
  shows "tick_labels ts w ! k = window_start ts w (Min (set ts)) + int k * w"
    and "tick_labels ts w ! k \<le> Max (set ts)"
proof -
  have ne: "ts \<noteq> []" using assms(2) by (auto simp: tick_labels_def)
  let ?o = "origin ts"
  let ?q = "\<lambda>t. (t - ?o) div w"
  let ?n = "nat (?q (Max (set ts)) - ?q (Min (set ts)) + 1)"
  have E: "tick_labels ts w = map (\<lambda>k. window_start ts w (Min (set ts)) + int k * w) [0 ..< ?n]"
    using tick_labels_eq[OF ne assms(1)] .
  have kn: "k < ?n" using assms(2) unfolding E by simp
  show n: "tick_labels ts w ! k = window_start ts w (Min (set ts)) + int k * w"
    unfolding E using kn by simp
  have "int k \<le> ?q (Max (set ts)) - ?q (Min (set ts))" using kn by linarith
  then have "int k * w \<le> (?q (Max (set ts)) - ?q (Min (set ts))) * w"
    using assms(1) by simp
  then have "tick_labels ts w ! k \<le> window_start ts w (Max (set ts))"
    unfolding n by (simp add: window_start_eq algebra_simps)
  then show "tick_labels ts w ! k \<le> Max (set ts)"
    using window_start_le[OF assms(1), of ts "Max (set ts)"] by linarith
qed

lemma window_start_in_edges:
  assumes "0 < w" "t \<in> set ts"
  shows "window_start ts w t \<in> set (tick_labels ts w)"
  using edge_of_sample[OF assms] by (metis nth_mem)

text \<open>The window found by the join, and the rows of a join that finds none.\<close>

lemma latest_window:
  assumes "0 < w" "t \<in> set ts"
  shows "\<exists>j < length (tick_labels ts w).
           int (count_le (tick_labels ts w) t) - 1 = int j \<and>
           tick_labels ts w ! j = window_start ts w t \<and>
           tick_labels ts w ! j \<le> t \<and>
           (\<forall>j' < length (tick_labels ts w). tick_labels ts w ! j' \<le> t \<longrightarrow> j' \<le> j)"
proof -
  from edge_of_sample[OF assms] obtain k where
    k: "k < length (tick_labels ts w)" "int (count_le (tick_labels ts w) t) - 1 = int k"
       "tick_labels ts w ! k = window_start ts w t" by blast
  have "tick_labels ts w ! k \<le> t" unfolding k(3) using window_start_le[OF assms(1)] .
  moreover have "\<forall>j' < length (tick_labels ts w). tick_labels ts w ! j' \<le> t \<longrightarrow> j' \<le> k"
  proof (intro allI impI)
    fix j' assume "j' < length (tick_labels ts w)" "tick_labels ts w ! j' \<le> t"
    then have "j' < count_le (tick_labels ts w) t"
      using sorted_nth_le_iff[OF sorted_tick_labels[OF assms(1)], of j' ts t] by blast
    then show "j' \<le> k" using k(2) by linarith
  qed
  ultimately show ?thesis using k by blast
qed

lemma label_cells_nth:
  assumes "0 < w" "length ts = length xs" "t \<in> set ts" "j < length (tick_labels ts w)"
    "tick_labels ts w ! j = window_start ts w t"
  shows "ge_cells (window_means ts (map Num xs) w) mv ! j = Flag (mv \<le> epoch_mean ts xs w t)"
    and "le_cells (window_means ts (map Num xs) w) sb ! j = Flag (epoch_mean ts xs w t \<le> sb)"
    and "window_means ts (map Num xs) w ! j = Num (epoch_mean ts xs w t)"
  using assms(4,5) mean_cells_window[OF assms(1-3)]
  by (simp_all add: ge_cells_def le_cells_def window_means_def)

lemma asof_before_first:
  assumes "sorted lv" "sorted rv" "i < length lv" "\<forall>r\<in>set rv. lv ! i < r"
  shows "take_rows c (asof_join_backward lv rv 0) ! i = NaN"
proof -
  have "asof_join_backward lv rv 0 = map (\<lambda>l. int (count_le rv l) - 1) lv"
    using assms(2,1) by (rule asof_join_backward_count) simp
  moreover have "count_le rv (lv ! i) = 0"
    using sorted_above_count[OF assms(2,4)] .
  ultimately show ?thesis using assms(3) by (simp add: take_rows_def)
qed

lemma merge_asof_unmatched:
  assumes "merge_asof left right on = Inr m"
    "getitem left on = Inr (map Stamp lv)" "getitem right on = Inr (map Stamp rv)"
    "i < length lv" "\<forall>r\<in>set rv. lv ! i < r"
    "(n, c) \<in> set (drop (length (cols left)) (cols m))"
  shows "c ! i = NaN"
proof -
  have l: "map_of (cols left) on = Some (map Stamp lv)"
    using assms(2) by (auto simp: getitem_def split: option.splits)
  have r: "map_of (cols right) on = Some (map Stamp rv)"
    using assms(3) by (auto simp: getitem_def split: option.splits)
  have s: "sorted lv" "sorted rv"
    using assms(1) unfolding merge_asof_def l r by (auto simp: stamps_map_Stamp split: if_splits)
  obtain g where m: "drop (length (cols left)) (cols m) =
      map (\<lambda>(n, c). (g n, take_rows c (asof_join_backward lv rv 0)))
        (filter (\<lambda>p. fst p \<noteq> on) (cols right))"
  proof -
    let ?ov = "filter (\<lambda>n. n \<in> set (map fst (filter (\<lambda>p. fst p \<noteq> on) (cols right)))) (map fst (cols left))"
    have "cols m = map (\<lambda>(n, c). (if n \<in> set ?ov then n @ ''_x'' else n, c)) (cols left) @
         map (\<lambda>(n, c). (if n \<in> set ?ov then n @ ''_y'' else n, take_rows c (asof_join_backward lv rv 0)))
           (filter (\<lambda>p. fst p \<noteq> on) (cols right))"
      using assms(1) s unfolding merge_asof_def l r by (auto simp: stamps_map_Stamp Let_def)
    then have "drop (length (cols left)) (cols m) =
         map (\<lambda>(n, c). (if n \<in> set ?ov then n @ ''_y'' else n, take_rows c (asof_join_backward lv rv 0)))
           (filter (\<lambda>p. fst p \<noteq> on) (cols right))"
      by simp
    then show ?thesis using that[of "\<lambda>n. if n \<in> set ?ov then n @ ''_y'' else n"] by simp
  qed
  from assms(6) obtain c' where "c = take_rows c' (asof_join_backward lv rv 0)"
    unfolding m by auto
  then show ?thesis using asof_before_first[OF s assms(4,5)] by simp
qed

text \<open>Two samples two seconds apart, resampled to one second.\<close>

lemma bin_edges_gap: "bin_edges [0, 2000000000] 1000000000 = Inr [0, 1000000000, 2000000000]"
  by (simp add: bin_edges_def in_i64_def i64_max_def Let_def day_ns_def upt_rec)

lemma tick_labels_gap: "tick_labels [0, 2000000000] 1000000000 = [0, 1000000000, 2000000000]"
  using bin_edges_Inr[OF bin_edges_gap] by simp

lemma enmo_unit: "vector_magnitude True True (1, 0, 0) = 0"
  by (simp add: vector_magnitude_def)

lemma means_gap:
  "window_means [0, 2000000000] (map Num (enmo [(1, 0, 0), (1, 0, 0)])) 1000000000 = [Num 0, NaN, Num 0]"
  by (simp add: window_means_def tick_labels_gap enmo_def enmo_unit in_bin_def mean_cells_def)

text \<open>One sample with ENMO 1.\<close>

lemma enmo_two: "vector_magnitude True True (2, 0, 0) = 1"
  by (simp add: vector_magnitude_def)

lemma bin_edges_single: "bin_edges [0] 1000000000 = Inr [0]"
  by (simp add: bin_edges_def in_i64_def i64_max_def Let_def day_ns_def upt_rec)

lemma tick_labels_single: "tick_labels [0] 1000000000 = [0]"
  using bin_edges_Inr[OF bin_edges_single] by simp

lemma means_single:
  "window_means [0] (map Num (enmo [(2, 0, 0)])) 1000000000 = [Num 1]"
  by (simp add: window_means_def tick_labels_single enmo_def enmo_two in_bin_def mean_cells_def)

lemma pa_rows_single:
  "pa_rows [0] [(2, 0, 0)] 1000000000 mv sb = [[Flag (mv \<le> 1), Flag (1 \<le> sb)]]"
  by (simp add: pa_rows_def epoch_mean_def epoch_values_def window_start_def origin_def
      day_ns_def enmo_def enmo_two)

text \<open>Three samples one second apart, each of magnitude 1.1.\<close>

lemma bin_edges_three: "bin_edges [0, 1000000000, 2000000000] 1000000000 = Inr [0, 1000000000, 2000000000]"
  by (simp add: bin_edges_def in_i64_def i64_max_def Let_def day_ns_def upt_rec)

lemma tick_labels_three: "tick_labels [0, 1000000000, 2000000000] 1000000000 = [0, 1000000000, 2000000000]"
  using bin_edges_Inr[OF bin_edges_three] by simp

lemma window_start_three:
  "window_start [0, 1000000000, 2000000000] 1000000000 0 = 0"
  "window_start [0, 1000000000, 2000000000] 1000000000 1000000000 = 1000000000"
  "window_start [0, 1000000000, 2000000000] 1000000000 2000000000 = 2000000000"
  by (simp_all add: window_start_def origin_def day_ns_def)

lemma epoch_mean_three:
  "epoch_mean [0, 1000000000, 2000000000] [a, b, c] 1000000000 0 = a"
  "epoch_mean [0, 1000000000, 2000000000] [a, b, c] 1000000000 1000000000 = b"
  "epoch_mean [0, 1000000000, 2000000000] [a, b, c] 1000000000 2000000000 = c"
  by (simp_all add: epoch_mean_def epoch_values_def window_start_three)

lemma enmo_of_norm:
  assumes "sqrt (y * y + x * x + z * z) = 11 / 10"
  shows "vector_magnitude True True (y, x, z) = 1 / 10"
proof -
  have "vector_magnitude True True (y, x, z) =
      (if sqrt (y * y + x * x + z * z) - 1 < 0 then 0 else sqrt (y * y + x * x + z * z) - 1)"
    by (simp add: vector_magnitude_def Let_def)
  also have "\<dots> = 1 / 10" unfolding assms by simp
  finally show ?thesis .
qed

lemma sqrt_121_100: "sqrt (121 / 100) = 11 / 10"
  by (rule real_sqrt_unique) (simp_all add: power2_eq_square)





text \<open>One sample on a Thursday or a Friday, resampled to weeks: the only window is
  labelled with the Sunday that ends it, after the sample, and the join finds no window.\<close>

lemma week_binner_thursday: "week_binner [0] = Inr [- 345600000000000, 259200000000000]"
  by (simp add: week_binner_def in_i64_def i64_max_def Let_def day_ns_def upt_rec)

lemma week_binner_friday:
  "week_binner [86400000000000] = Inr [- 345600000000000, 259200000000000]"
  by (simp add: week_binner_def in_i64_def i64_max_def Let_def day_ns_def upt_rec)

lemma resampled_week:
  assumes "week_binner [t] = Inr [- 345600000000000, 259200000000000]"
    "- 345600000000000 + 86400000000000 - 1 < t" "t \<le> 259200000000000 + 86400000000000 - 1"
  shows "resampled_frame (data_frame [t] [(2, 0, 0)]) ''W'' = Inr \<lparr>idx = None,
     cols = [(''Time'', [Stamp 259200000000000]), (''Y'', [Num 2]), (''X'', [Num 0]),
             (''Z'', [Num 0]), (''EMNO'', [Num 1])]\<rparr>"
  using assms
  by (simp add: resampled_frame_def data_frame_def set_index_def resample_mean_def
      reset_index_def to_offset_W in_week_def mean_cells_def day_ns_def enmo_two)

lemma labelled_week:
  "labelled \<lparr>idx = None,
     cols = [(''Time'', [Stamp 259200000000000]), (''Y'', [Num 2]), (''X'', [Num 0]),
             (''Z'', [Num 0]), (''EMNO'', [Num 1])]\<rparr> mv sb =
   Inr \<lparr>idx = None,
     cols = [(''Time'', [Stamp 259200000000000]), (''Y'', [Num 2]), (''X'', [Num 0]),
             (''Z'', [Num 0]), (''EMNO'', [Num 1]),
             (''MVPA'', [Flag (mv \<le> 1)]), (''SB'', [Flag (1 \<le> sb)])]\<rparr>"
  by (simp add: labelled_def getitem_def set_column_def nrows_def ge_cells_def le_cells_def)

lemma joined_week:
  assumes "t < 259200000000000"
  shows "joined (data_frame [t] [(2, 0, 0)])
     \<lparr>idx = None,
      cols = [(''Time'', [Stamp 259200000000000]), (''Y'', [Num 2]), (''X'', [Num 0]),
              (''Z'', [Num 0]), (''EMNO'', [Num 1]),
              (''MVPA'', [Flag m]), (''SB'', [Flag b])]\<rparr> = Inr [[NaN, NaN]]"
  using assms
  by (simp add: joined_def getitems_def data_frame_def merge_asof_def Let_def
      advance.simps take_rows_def frame_values_def nrows_def)

section \<open>The store across a call\<close>


















section \<open>Claims\<close>

text \<open>
  C1.  The claim: with a null or empty interval the estimator succeeds and row i of the
  result is the direct comparison of sample i's ENMO with the two cutpoints.  The source
  does not get that far: on the input of one sample at time 0 with acceleration (2, 0, 0)
  and no interval, the call ends in a \<^verbatim>\<open>KeyError\<close>, as it does with the empty string.
\<close>

theorem no_interval_key_error:
  "fst (calculate_pa_levels 0 1 default_mvpa_cutpoint default_sb_cutpoint None
          [TimeArr [0], AccArr [(2, 0, 0)]]) = Inl KeyError \<and>
   fst (calculate_pa_levels 0 1 default_mvpa_cutpoint default_sb_cutpoint (Some [])
          [TimeArr [0], AccArr [(2, 0, 0)]]) = Inl KeyError"
  by (simp add: run_no_interval)




text \<open>
  C3, as the claim states it: whenever the estimator returns, the result is n rows of two
  booleans each.  With the weekly interval \<^verbatim>\<open>"W"\<close> the call returns, and the rows need not
  hold booleans: one sample on Thursday 1 January 1970 falls in the week whose window is
  labelled with Sunday 4 January, after the sample, so the join finds no window for it and
  the one row of the result holds two missing values.
\<close>

theorem week_rows_missing:
  "fst (calculate_pa_levels 0 1 default_mvpa_cutpoint default_sb_cutpoint (Some ''W'')
          [TimeArr [0], AccArr [(2, 0, 0)]]) = Inr [[NaN, NaN]]"
proof -
  let ?h = "[TimeArr [0], AccArr [(2, 0, 0)]]"
  have hy: "0 < length ?h" "?h ! 0 = TimeArr [0]" "1 < length ?h" "?h ! 1 = AccArr [(2, 0, 0)]"
    "length [0::int] = length [(2::real, 0::real, 0::real)]" "''W'' \<noteq> []"
    by simp_all
  have r: "resampled_frame (data_frame [0] [(2, 0, 0)]) ''W'' = Inr \<lparr>idx = None,
     cols = [(''Time'', [Stamp 259200000000000]), (''Y'', [Num 2]), (''X'', [Num 0]),
             (''Z'', [Num 0]), (''EMNO'', [Num 1])]\<rparr>"
    by (rule resampled_week[OF week_binner_thursday]) simp_all
  show ?thesis
    unfolding run_some(3)[OF hy r labelled_week]
    by (simp add: joined_week)
qed

text \<open>
  C3, amended: for n timestamps and n triples and an interval string that denotes a fixed
  width above zero, whenever the estimator returns, the result has n rows of two booleans
  each: row i holds, in this order, the MVPA flag and the SB flag of the window that holds
  the timestamp of sample i.
\<close>

theorem pa_levels_shape:
  assumes "rt < length h" "h ! rt = TimeArr ts" "ra < length h" "h ! ra = AccArr acc"
    "length ts = length acc" "to_offset s = Inr (Tick w)" "0 < w"
    "fst (calculate_pa_levels rt ra mv sb (Some s) h) = Inr rows"
  shows "length rows = length ts \<and>
      (\<forall>i < length ts. rows ! i = [Flag (mv \<le> epoch_mean ts (enmo acc) w (ts ! i)),
                                  Flag (epoch_mean ts (enmo acc) w (ts ! i) \<le> sb)])"
proof -
  have s: "s \<noteq> []" using assms(6) by (auto simp: to_offset_def tick_units_def)
  obtain edges where e: "bin_edges ts w = Inr edges"
    using run_no_bins[OF assms(1-5) s assms(6), of _ mv sb] assms(8)
    by (cases "bin_edges ts w") auto
  have srt: "sorted ts"
    using run_unsorted[OF assms(1-5) s assms(6,7) e, of mv sb] assms(8) by auto
  have rows: "rows = pa_rows ts acc w mv sb"
    using run_interval_rows[OF assms(1-5) s assms(6,7) e srt, of mv sb] assms(8) by simp
  show ?thesis unfolding rows pa_rows_def by simp
qed

text \<open>C3, witness: a call that returns, with three rows for three samples.\<close>

theorem pa_levels_shape_witness:
  "\<exists>rows. fst (calculate_pa_levels 0 1 default_mvpa_cutpoint default_sb_cutpoint default_interval
       [TimeArr [0, 500000000, 1000000000], AccArr [(1, 0, 0), (0, 2, 0), (0, 0, 3)]]) = Inr rows \<and>
     length rows = 3"
proof -
  let ?ts = "[0, 500000000, 1000000000] :: int list"
  let ?acc = "[(1, 0, 0), (0, 2, 0), (0, 0, 3)] :: (real \<times> real \<times> real) list"
  let ?h = "[TimeArr ?ts, AccArr ?acc]"
  have hy: "0 < length ?h" "?h ! 0 = TimeArr ?ts" "1 < length ?h" "?h ! 1 = AccArr ?acc"
    "length ?ts = length ?acc"
    by simp_all
  have w: "(0::int) < 1000000000" by simp
  have b: "bin_edges ?ts 1000000000 = Inr [0, 1000000000]"
    by (simp add: bin_edges_def in_i64_def i64_max_def Let_def day_ns_def upt_rec)
  have r: "fst (calculate_pa_levels 0 1 default_mvpa_cutpoint default_sb_cutpoint (Some ''1s'') ?h) =
     Inr (pa_rows ?ts ?acc 1000000000 default_mvpa_cutpoint default_sb_cutpoint)"
    using run_interval_rows[where mv = default_mvpa_cutpoint and sb = default_sb_cutpoint,
        OF hy _ to_offset_1s w b]
    by simp
  from pa_levels_shape[OF hy to_offset_1s w r] show ?thesis
    using r by (simp add: default_interval_def)
qed

text \<open>
  C4, as the claim states it: the resampling step yields one entry per window that contains
  a sample, and windows without samples are left out.  For two samples at 0 s and 2 s and
  the interval of one second, the frame bound to \<^verbatim>\<open>tmp\<close> has three entries: the window
  at 1 s holds no sample and is present, with a missing mean.
\<close>

theorem resample_keeps_empty_window:
  "\<exists>d f. snd (calculate_pa_levels 0 1 default_mvpa_cutpoint default_sb_cutpoint default_interval
             [TimeArr [0, 2000000000], AccArr [(1, 0, 0), (1, 0, 0)]])
          = [TimeArr [0, 2000000000], AccArr [(1, 0, 0), (1, 0, 0)], Frame d, Frame f] \<and>
     getitem f ''Time'' = Inr [Stamp 0, Stamp 1000000000, Stamp 2000000000] \<and>
     getitem f ''EMNO'' = Inr [Num 0, NaN, Num 0]"
proof -
  let ?h = "[TimeArr [0, 2000000000], AccArr [(1, 0, 0), (1, 0, 0)]]"
  have "calculate_pa_levels 0 1 default_mvpa_cutpoint default_sb_cutpoint (Some ''1s'') ?h =
     (Inr (pa_rows [0, 2000000000] [(1, 0, 0), (1, 0, 0)] 1000000000
              default_mvpa_cutpoint default_sb_cutpoint),
      ?h @ [Frame (data_frame [0, 2000000000] [(1, 0, 0), (1, 0, 0)]),
            Frame (tmp_frame [0, 2000000000] [(1, 0, 0), (1, 0, 0)] 1000000000
                     default_mvpa_cutpoint default_sb_cutpoint)])"
    by (rule run_interval_rows[where w = 1000000000 and edges = "[0, 1000000000, 2000000000]"])
       (simp_all add: to_offset_1s bin_edges_gap)
  then show ?thesis
    by (simp add: default_interval_def tmp_frame_cols tick_labels_gap means_gap)
qed

text \<open>
  C4, amended: with an interval of a fixed width above zero whose bins lie within the
  64-bit range, the resampled frame has one entry for every window from the one that holds
  the earliest sample on, spaced by the interval and none starting after the latest sample;
  the window of every sample is among them; a window with samples carries the mean of their
  ENMO, and a window without samples is kept, with a missing mean.
\<close>

theorem resample_windows:
  assumes "rt < length h" "h ! rt = TimeArr ts" "ra < length h" "h ! ra = AccArr acc"
    "length ts = length acc" "sorted ts" "s \<noteq> []" "to_offset s = Inr (Tick w)" "0 < w"
    "bin_edges ts w = Inr edges"
  shows "\<exists>d f E. snd (calculate_pa_levels rt ra mv sb (Some s) h) = h @ [Frame d, Frame f] \<and>
    getitem f ''Time'' = Inr (map Stamp (edges)) \<and>
    getitem f ''EMNO'' = Inr E \<and> length E = length (edges) \<and>
    (\<forall>k < length (edges).
        edges ! k = window_start ts w (Min (set ts)) + int k * w \<and>
        edges ! k \<le> Max (set ts) \<and>
        E ! k = (let vs = map snd (filter (\<lambda>(u, x). edges ! k \<le> u \<and> u < edges ! k + w)
                                     (zip ts (enmo acc)))
                 in if vs = [] then NaN else Num (sum_list vs / real (length vs)))) \<and>
    (\<forall>t \<in> set ts. window_start ts w t \<in> set (edges))"
proof -
  have w: "0 < w" by (rule assms(9))
  have E: "edges = tick_labels ts w" by (rule bin_edges_Inr[OF assms(10)])
  let ?E = "window_means ts (map Num (enmo acc)) w"
  have "snd (calculate_pa_levels rt ra mv sb (Some s) h) =
      h @ [Frame (data_frame ts acc), Frame (tmp_frame ts acc w mv sb)]"
    using run_interval_rows[OF assms(1-5) assms(7,8,9,10,6), of mv sb] by simp
  moreover have "length ?E = length (tick_labels ts w)" by (simp add: window_means_def)
  moreover have "\<forall>k < length (tick_labels ts w).
        tick_labels ts w ! k = window_start ts w (Min (set ts)) + int k * w \<and>
        tick_labels ts w ! k \<le> Max (set ts) \<and>
        ?E ! k = (let vs = map snd (filter (\<lambda>(u, x). tick_labels ts w ! k \<le> u \<and> u < tick_labels ts w ! k + w)
                                     (zip ts (enmo acc)))
                 in if vs = [] then NaN else Num (sum_list vs / real (length vs)))"
    using tick_labels_nth[OF w] window_means_nth by blast
  moreover have "\<forall>t \<in> set ts. window_start ts w t \<in> set (tick_labels ts w)"
    using window_start_in_edges[OF w] by blast
  ultimately show ?thesis unfolding E using tmp_frame_cols(1,2) by blast
qed


text \<open>C4, witness: the same two samples; the window at 1 s is there and its mean is missing.\<close>

theorem resample_windows_witness:
  "\<exists>d f E. snd (calculate_pa_levels 0 1 default_mvpa_cutpoint default_sb_cutpoint default_interval
             [TimeArr [0, 2000000000], AccArr [(1, 0, 0), (1, 0, 0)]])
          = [TimeArr [0, 2000000000], AccArr [(1, 0, 0), (1, 0, 0)], Frame d, Frame f] \<and>
     getitem f ''Time'' = Inr [Stamp 0, Stamp 1000000000, Stamp 2000000000] \<and>
     getitem f ''EMNO'' = Inr E \<and> length E = 3 \<and> E ! 0 = Num 0 \<and> E ! 1 = NaN"
proof -
  let ?ts = "[0, 2000000000] :: int list"
  let ?acc = "[(1, 0, 0), (1, 0, 0)] :: (real \<times> real \<times> real) list"
  let ?e = "[0, 1000000000, 2000000000] :: int list"
  let ?h = "[TimeArr ?ts, AccArr ?acc]"
  have hy: "0 < length ?h" "?h ! 0 = TimeArr ?ts" "1 < length ?h" "?h ! 1 = AccArr ?acc"
    "length ?ts = length ?acc" "sorted ?ts" "''1s'' \<noteq> []"
    by simp_all
  have w1: "(0::int) < 1000000000" by simp
  from resample_windows[where mv = default_mvpa_cutpoint and sb = default_sb_cutpoint,
      OF hy to_offset_1s w1 bin_edges_gap]
  obtain d f E where a:
    "snd (calculate_pa_levels 0 1 default_mvpa_cutpoint default_sb_cutpoint (Some ''1s'') ?h) = ?h @ [Frame d, Frame f]"
    "getitem f ''Time'' = Inr (map Stamp ?e)"
    "getitem f ''EMNO'' = Inr E" "length E = length ?e"
    "\<forall>k < length ?e.
       E ! k = (let vs = map snd (filter (\<lambda>(u, x). ?e ! k \<le> u \<and> u < ?e ! k + 1000000000)
                                     (zip ?ts (enmo ?acc)))
                 in if vs = [] then NaN else Num (sum_list vs / real (length vs)))"
    by auto
  have "E ! 0 = Num 0" "E ! 1 = NaN"
    using a(5) by (simp_all add: enmo_def enmo_unit)
  then show ?thesis using a(1-4)
    by (simp add: default_interval_def)
qed


text \<open>
  C5.  For nondecreasing timestamps (and an interval of a fixed width above zero whose bins
  lie within the 64-bit range), row i of the result is the pair of labels of the latest
  window whose timestamp is at or before the timestamp of sample i: the window j with that
  property is the last one among all windows at or before the sample.
  In the join itself, a left row whose key is before every right key is matched with no
  row, and its joined cells are missing.
\<close>

theorem pa_levels_asof:
  assumes "rt < length h" "h ! rt = TimeArr ts" "ra < length h" "h ! ra = AccArr acc"
    "length ts = length acc" "sorted ts" "s \<noteq> []" "to_offset s = Inr (Tick w)" "0 < w"
    "bin_edges ts w = Inr edges"
  shows "(\<exists>rows d f M S.
      calculate_pa_levels rt ra mv sb (Some s) h = (Inr rows, h @ [Frame d, Frame f]) \<and>
      getitem f ''Time'' = Inr (map Stamp (edges)) \<and>
      getitem f ''MVPA'' = Inr M \<and> getitem f ''SB'' = Inr S \<and>
      length M = length (edges) \<and> length S = length (edges) \<and>
      length rows = length ts \<and>
      (\<forall>i < length ts. \<exists>j < length (edges).
          edges ! j \<le> ts ! i \<and>
          (\<forall>j' < length (edges). edges ! j' \<le> ts ! i \<longrightarrow> j' \<le> j) \<and>
          rows ! i = [M ! j, S ! j])) \<and>
    (merge_asof left right on = Inr m \<and>
     getitem left on = Inr (map Stamp lv) \<and> getitem right on = Inr (map Stamp rv) \<and>
     i < length lv \<and> (\<forall>r\<in>set rv. lv ! i < r) \<and>
     (n, c) \<in> set (drop (length (cols left)) (cols m)) \<longrightarrow> c ! i = NaN)"
proof -
  have w: "0 < w" by (rule assms(9))
  have E: "edges = tick_labels ts w" by (rule bin_edges_Inr[OF assms(10)])
  have len: "length ts = length (enmo acc)" using assms(5) by (simp add: enmo_def)
  let ?M = "ge_cells (window_means ts (map Num (enmo acc)) w) mv"
  let ?S = "le_cells (window_means ts (map Num (enmo acc)) w) sb"
  have run: "calculate_pa_levels rt ra mv sb (Some s) h =
      (Inr (pa_rows ts acc w mv sb), h @ [Frame (data_frame ts acc), Frame (tmp_frame ts acc w mv sb)])"
    by (rule run_interval_rows[OF assms(1-5) assms(7,8,9,10,6)])
  have lens: "length ?M = length (tick_labels ts w)" "length ?S = length (tick_labels ts w)"
    "length (pa_rows ts acc w mv sb) = length ts"
    by (simp_all add: ge_cells_def le_cells_def window_means_def pa_rows_def)
  have rows: "\<forall>i < length ts. \<exists>j < length (tick_labels ts w).
          tick_labels ts w ! j \<le> ts ! i \<and>
          (\<forall>j' < length (tick_labels ts w). tick_labels ts w ! j' \<le> ts ! i \<longrightarrow> j' \<le> j) \<and>
          pa_rows ts acc w mv sb ! i = [?M ! j, ?S ! j]"
  proof (intro allI impI)
    fix i assume i: "i < length ts"
    then have mem: "ts ! i \<in> set ts" by simp
    from latest_window[OF w mem] obtain j where j: "j < length (tick_labels ts w)"
      "tick_labels ts w ! j = window_start ts w (ts ! i)" "tick_labels ts w ! j \<le> ts ! i"
      "\<forall>j' < length (tick_labels ts w). tick_labels ts w ! j' \<le> ts ! i \<longrightarrow> j' \<le> j" by blast
    have "pa_rows ts acc w mv sb ! i = [?M ! j, ?S ! j]"
      unfolding label_cells_nth(1,2)[OF w len mem j(1,2)] using i by (simp add: pa_rows_def)
    then show "\<exists>j < length (tick_labels ts w).
          tick_labels ts w ! j \<le> ts ! i \<and>
          (\<forall>j' < length (tick_labels ts w). tick_labels ts w ! j' \<le> ts ! i \<longrightarrow> j' \<le> j) \<and>
          pa_rows ts acc w mv sb ! i = [?M ! j, ?S ! j]"
      using j by blast
  qed
  have A: "\<exists>rows d f M S.
      calculate_pa_levels rt ra mv sb (Some s) h = (Inr rows, h @ [Frame d, Frame f]) \<and>
      getitem f ''Time'' = Inr (map Stamp (tick_labels ts w)) \<and>
      getitem f ''MVPA'' = Inr M \<and> getitem f ''SB'' = Inr S \<and>
      length M = length (tick_labels ts w) \<and> length S = length (tick_labels ts w) \<and>
      length rows = length ts \<and>
      (\<forall>i < length ts. \<exists>j < length (tick_labels ts w).
          tick_labels ts w ! j \<le> ts ! i \<and>
          (\<forall>j' < length (tick_labels ts w). tick_labels ts w ! j' \<le> ts ! i \<longrightarrow> j' \<le> j) \<and>
          rows ! i = [M ! j, S ! j])"
    using run tmp_frame_cols(1,3,4)[of ts acc w mv sb] lens rows by blast
  show ?thesis unfolding E using A merge_asof_unmatched[of left right on m lv rv i n c] by blast
qed


text \<open>C5, witness: the second of two samples takes the labels of the third window; and a
  join of the keys 0 and 5 with the single key 3 leaves the first row unmatched.\<close>

theorem pa_levels_asof_witness:
  "(\<exists>rows d f M S.
      calculate_pa_levels 0 1 default_mvpa_cutpoint default_sb_cutpoint (Some ''1s'')
          [TimeArr [0, 2000000000], AccArr [(1, 0, 0), (1, 0, 0)]] =
        (Inr rows, [TimeArr [0, 2000000000], AccArr [(1, 0, 0), (1, 0, 0)], Frame d, Frame f]) \<and>
      getitem f ''Time'' = Inr [Stamp 0, Stamp 1000000000, Stamp 2000000000] \<and>
      getitem f ''MVPA'' = Inr M \<and> getitem f ''SB'' = Inr S \<and> length rows = 2 \<and>
      rows ! 1 = [M ! 2, S ! 2]) \<and>
   take_rows [Flag True] (asof_join_backward [0, 5] [3] 0) ! 0 = NaN"
proof -
  let ?h = "[TimeArr [0, 2000000000], AccArr [(1, 0, 0), (1, 0, 0)]]"
  let ?e = "[0, 1000000000, 2000000000] :: int list"
  let ?left = "\<lparr>idx = None, cols = [(''Time'', [Stamp 0, Stamp 5])]\<rparr>"
  let ?right = "\<lparr>idx = None, cols = [(''Time'', [Stamp 3]), (''MVPA'', [Flag True])]\<rparr>"
  let ?c = "take_rows [Flag True] (asof_join_backward [0, 5] [3] 0)"
  let ?m = "\<lparr>idx = None, cols = [(''Time'', [Stamp 0, Stamp 5]), (''MVPA'', ?c)]\<rparr>"
  have hy: "0 < length ?h" "?h ! 0 = TimeArr [0, 2000000000]" "1 < length ?h"
    "?h ! 1 = AccArr [(1, 0, 0), (1, 0, 0)]"
    "length [0::int, 2000000000] = length [(1::real, 0::real, 0::real), (1, 0, 0)]"
    "sorted [0::int, 2000000000]" "''1s'' \<noteq> []"
    by simp_all
  have w1: "(0::int) < 1000000000" by simp
  note t = pa_levels_asof[where mv = default_mvpa_cutpoint and sb = default_sb_cutpoint
      and left = ?left and right = ?right and on = "''Time''" and m = ?m and lv = "[0, 5]"
      and rv = "[3]" and i = 0 and n = "''MVPA''" and c = ?c, OF hy to_offset_1s w1 bin_edges_gap]
  have m: "merge_asof ?left ?right ''Time'' = Inr ?m"
    by (simp add: merge_asof_def Let_def)
  have g: "getitem ?left ''Time'' = Inr (map Stamp [0, 5])"
      "getitem ?right ''Time'' = Inr (map Stamp [3])"
    by (simp_all add: getitem_def)
  have o: "(0::nat) < length [0::int, 5]" "\<forall>r\<in>set [3]. [0::int, 5] ! 0 < r"
    "(''MVPA'', ?c) \<in> set (drop (length (cols ?left)) (cols ?m))"
    by simp_all
  have B: "?c ! 0 = NaN"
    using t[THEN conjunct2] m g o by blast
  from t[THEN conjunct1] obtain rows d f M S where a:
    "calculate_pa_levels 0 1 default_mvpa_cutpoint default_sb_cutpoint (Some ''1s'') ?h =
        (Inr rows, ?h @ [Frame d, Frame f])"
    "getitem f ''Time'' = Inr (map Stamp ?e)"
    "getitem f ''MVPA'' = Inr M" "getitem f ''SB'' = Inr S"
    "length rows = length [0::int, 2000000000]"
    "\<forall>i < length [0::int, 2000000000]. \<exists>j < length ?e.
          ?e ! j \<le> [0, 2000000000] ! i \<and>
          (\<forall>j' < length ?e.
              ?e ! j' \<le> [0, 2000000000] ! i \<longrightarrow> j' \<le> j) \<and>
          rows ! i = [M ! j, S ! j]"
    by blast
  from a(6)[rule_format, of 1] obtain j where j: "j < length ?e"
    "\<forall>j' < length ?e.
              ?e ! j' \<le> [0, 2000000000] ! 1 \<longrightarrow> j' \<le> j"
    "rows ! 1 = [M ! j, S ! j]"
    by auto
  from j(2)[rule_format, of 2] have "2 \<le> j" by simp
  with j(1) have "j = 2" by simp
  with j(3) a(1-5) B show ?thesis by simp
qed


text \<open>
  C6.  Both comparisons are inclusive: in the resampled frame a window whose mean ENMO
  equals \<^verbatim>\<open>mvpa_cutpoint\<close> has MVPA true and a window whose mean ENMO equals
  \<^verbatim>\<open>sb_cutpoint\<close> has SB true, and so have the rows of the samples of such a window.
  The statement is for an interval of a fixed width above zero whose bins lie within the
  64-bit range.
\<close>

theorem cutpoints_inclusive:
  assumes "rt < length h" "h ! rt = TimeArr ts" "ra < length h" "h ! ra = AccArr acc"
    "length ts = length acc" "sorted ts" "s \<noteq> []" "to_offset s = Inr (Tick w)" "0 < w"
    "bin_edges ts w = Inr edges"
  shows "\<exists>rows d f E M S.
      calculate_pa_levels rt ra mvpa_cutpoint sb_cutpoint (Some s) h =
        (Inr rows, h @ [Frame d, Frame f]) \<and>
      getitem f ''EMNO'' = Inr E \<and> getitem f ''MVPA'' = Inr M \<and> getitem f ''SB'' = Inr S \<and>
      length M = length E \<and> length S = length E \<and>
      (\<forall>k < length E. (E ! k = Num mvpa_cutpoint \<longrightarrow> M ! k = Flag True) \<and>
                       (E ! k = Num sb_cutpoint \<longrightarrow> S ! k = Flag True)) \<and>
      length rows = length ts \<and>
      (\<forall>i < length ts.
         (epoch_mean ts (enmo acc) w (ts ! i) = mvpa_cutpoint \<longrightarrow> rows ! i ! 0 = Flag True) \<and>
         (epoch_mean ts (enmo acc) w (ts ! i) = sb_cutpoint \<longrightarrow> rows ! i ! 1 = Flag True))"
proof -
  let ?E = "window_means ts (map Num (enmo acc)) w"
  let ?M = "ge_cells ?E mvpa_cutpoint" and ?S = "le_cells ?E sb_cutpoint"
  have run: "calculate_pa_levels rt ra mvpa_cutpoint sb_cutpoint (Some s) h =
      (Inr (pa_rows ts acc w mvpa_cutpoint sb_cutpoint),
       h @ [Frame (data_frame ts acc), Frame (tmp_frame ts acc w mvpa_cutpoint sb_cutpoint)])"
    by (rule run_interval_rows[OF assms(1-5) assms(7,8,9,10,6)])
  have lens: "length ?M = length ?E" "length ?S = length ?E"
    "length (pa_rows ts acc w mvpa_cutpoint sb_cutpoint) = length ts"
    by (simp_all add: ge_cells_def le_cells_def pa_rows_def)
  have win: "\<forall>k < length ?E. (?E ! k = Num mvpa_cutpoint \<longrightarrow> ?M ! k = Flag True) \<and>
                       (?E ! k = Num sb_cutpoint \<longrightarrow> ?S ! k = Flag True)"
    by (simp add: ge_cells_def le_cells_def)
  have rows: "\<forall>i < length ts.
         (epoch_mean ts (enmo acc) w (ts ! i) = mvpa_cutpoint \<longrightarrow>
            pa_rows ts acc w mvpa_cutpoint sb_cutpoint ! i ! 0 = Flag True) \<and>
         (epoch_mean ts (enmo acc) w (ts ! i) = sb_cutpoint \<longrightarrow>
            pa_rows ts acc w mvpa_cutpoint sb_cutpoint ! i ! 1 = Flag True)"
    by (simp add: pa_rows_def)
  show ?thesis
    using run tmp_frame_cols(2,3,4)[of ts acc w mvpa_cutpoint sb_cutpoint] lens win rows
    by blast
qed

text \<open>C6, witness: one sample with ENMO 1 and both cutpoints at 1; both labels are true.\<close>

theorem cutpoints_inclusive_witness:
  "\<exists>rows d f E M S.
      calculate_pa_levels 0 1 1 1 (Some ''1s'') [TimeArr [0], AccArr [(2, 0, 0)]] =
        (Inr rows, [TimeArr [0], AccArr [(2, 0, 0)], Frame d, Frame f]) \<and>
      getitem f ''EMNO'' = Inr E \<and> getitem f ''MVPA'' = Inr M \<and> getitem f ''SB'' = Inr S \<and>
      E ! 0 = Num 1 \<and> M ! 0 = Flag True \<and> S ! 0 = Flag True"
proof -
  let ?h = "[TimeArr [0], AccArr [(2, 0, 0)]]"
  have hy: "0 < length ?h" "?h ! 0 = TimeArr [0]" "1 < length ?h" "?h ! 1 = AccArr [(2, 0, 0)]"
    "length [0::int] = length [(2::real, 0::real, 0::real)]" "sorted [0::int]" "''1s'' \<noteq> []"
    by simp_all
  have w1: "(0::int) < 1000000000" by simp
  from cutpoints_inclusive[where mvpa_cutpoint = 1 and sb_cutpoint = 1,
      OF hy to_offset_1s w1 bin_edges_single]
  obtain rows d f E M S where a:
     "calculate_pa_levels 0 1 1 1 (Some ''1s'') ?h = (Inr rows, ?h @ [Frame d, Frame f])"
     "getitem f ''EMNO'' = Inr E" "getitem f ''MVPA'' = Inr M" "getitem f ''SB'' = Inr S"
     "\<forall>k < length E. (E ! k = Num 1 \<longrightarrow> M ! k = Flag True) \<and> (E ! k = Num 1 \<longrightarrow> S ! k = Flag True)"
    by blast
  have "f = tmp_frame [0] [(2, 0, 0)] 1000000000 1 1"
    using a(1) run_interval_rows[OF hy(1-5) hy(7) to_offset_1s w1 bin_edges_single hy(6), of 1 1] by simp
  then have E: "E = [Num 1]"
    using a(2) by (simp add: tmp_frame_cols means_single)
  then have "E ! 0 = Num 1" "0 < length E" by simp_all
  then have "M ! 0 = Flag True" "S ! 0 = Flag True" using a(5) by blast+
  then show ?thesis using a(1-4) \<open>E ! 0 = Num 1\<close> by auto
qed


text \<open>
  C7.  With \<^verbatim>\<open>mvpa_cutpoint\<close> above \<^verbatim>\<open>sb_cutpoint\<close> no window and no row has both
  labels true (for an interval of a fixed width above zero whose bins lie within the 64-bit
  range).  Nothing requires that order of the cutpoints: with both cutpoints at 1 the call
  returns, and the row of a sample with ENMO 1 has both labels true.
\<close>

theorem labels_exclusive:
  assumes "rt < length h" "h ! rt = TimeArr ts" "ra < length h" "h ! ra = AccArr acc"
    "length ts = length acc" "sorted ts" "s \<noteq> []" "to_offset s = Inr (Tick w)" "0 < w"
    "bin_edges ts w = Inr edges"
  shows "(sb_cutpoint < mvpa_cutpoint \<longrightarrow>
      (\<exists>rows d f M S.
        calculate_pa_levels rt ra mvpa_cutpoint sb_cutpoint (Some s) h =
          (Inr rows, h @ [Frame d, Frame f]) \<and>
        getitem f ''MVPA'' = Inr M \<and> getitem f ''SB'' = Inr S \<and> length M = length S \<and>
        (\<forall>k < length M. \<not> (M ! k = Flag True \<and> S ! k = Flag True)) \<and>
        (\<forall>r \<in> set rows. r \<noteq> [Flag True, Flag True]))) \<and>
    (\<exists>mv sb rows. mv \<le> sb \<and>
        fst (calculate_pa_levels 0 1 mv sb default_interval [TimeArr [0], AccArr [(2, 0, 0)]]) = Inr rows \<and>
        [Flag True, Flag True] \<in> set rows)"
proof (intro conjI impI)
  assume lt: "sb_cutpoint < mvpa_cutpoint"
  let ?E = "window_means ts (map Num (enmo acc)) w"
  let ?M = "ge_cells ?E mvpa_cutpoint" and ?S = "le_cells ?E sb_cutpoint"
  have run: "calculate_pa_levels rt ra mvpa_cutpoint sb_cutpoint (Some s) h =
      (Inr (pa_rows ts acc w mvpa_cutpoint sb_cutpoint),
       h @ [Frame (data_frame ts acc), Frame (tmp_frame ts acc w mvpa_cutpoint sb_cutpoint)])"
    by (rule run_interval_rows[OF assms(1-5) assms(7,8,9,10,6)])
  have lens: "length ?M = length ?S"
    by (simp add: ge_cells_def le_cells_def)
  have win: "\<forall>k < length ?M. \<not> (?M ! k = Flag True \<and> ?S ! k = Flag True)"
    using lt by (auto simp add: ge_cells_def le_cells_def split: cell.splits)
  have rows: "\<forall>r \<in> set (pa_rows ts acc w mvpa_cutpoint sb_cutpoint). r \<noteq> [Flag True, Flag True]"
    using lt by (auto simp add: pa_rows_def)
  show "\<exists>rows d f M S.
        calculate_pa_levels rt ra mvpa_cutpoint sb_cutpoint (Some s) h =
          (Inr rows, h @ [Frame d, Frame f]) \<and>
        getitem f ''MVPA'' = Inr M \<and> getitem f ''SB'' = Inr S \<and> length M = length S \<and>
        (\<forall>k < length M. \<not> (M ! k = Flag True \<and> S ! k = Flag True)) \<and>
        (\<forall>r \<in> set rows. r \<noteq> [Flag True, Flag True])"
    using run tmp_frame_cols(3,4)[of ts acc w mvpa_cutpoint sb_cutpoint] lens win rows
    by blast
next
  let ?h = "[TimeArr [0], AccArr [(2, 0, 0)]]"
  have "calculate_pa_levels 0 1 1 1 (Some ''1s'') ?h =
     (Inr (pa_rows [0] [(2, 0, 0)] 1000000000 1 1),
      ?h @ [Frame (data_frame [0] [(2, 0, 0)]), Frame (tmp_frame [0] [(2, 0, 0)] 1000000000 1 1)])"
    by (rule run_interval_rows[where w = 1000000000 and edges = "[0]"])
       (simp_all add: to_offset_1s bin_edges_single)
  then have "(1::real) \<le> 1 \<and>
      fst (calculate_pa_levels 0 1 1 1 default_interval ?h) = Inr [[Flag True, Flag True]] \<and>
      [Flag True, Flag True] \<in> set [[Flag True, Flag True]]"
    by (simp add: default_interval_def pa_rows_single)
  then show "\<exists>mv sb rows. mv \<le> sb \<and>
        fst (calculate_pa_levels 0 1 mv sb default_interval ?h) = Inr rows \<and>
        [Flag True, Flag True] \<in> set rows"
    by blast
qed

text \<open>C7, witness: one sample with ENMO 1 under the default cutpoints is MVPA and not SB.\<close>

theorem labels_exclusive_witness:
  "\<exists>rows d f M S.
      calculate_pa_levels 0 1 default_mvpa_cutpoint default_sb_cutpoint (Some ''1s'')
          [TimeArr [0], AccArr [(2, 0, 0)]] =
        (Inr rows, [TimeArr [0], AccArr [(2, 0, 0)], Frame d, Frame f]) \<and>
      getitem f ''MVPA'' = Inr M \<and> getitem f ''SB'' = Inr S \<and> length M = length S \<and>
      length M = 1 \<and> \<not> (M ! 0 = Flag True \<and> S ! 0 = Flag True) \<and>
      rows = [[Flag True, Flag False]]"
proof -
  let ?h = "[TimeArr [0], AccArr [(2, 0, 0)]]"
  have hy: "0 < length ?h" "?h ! 0 = TimeArr [0]" "1 < length ?h" "?h ! 1 = AccArr [(2, 0, 0)]"
    "length [0::int] = length [(2::real, 0::real, 0::real)]" "sorted [0::int]" "''1s'' \<noteq> []"
    by simp_all
  have w1: "(0::int) < 1000000000" by simp
  have lt: "default_sb_cutpoint < default_mvpa_cutpoint"
    by (simp add: default_sb_cutpoint_def default_mvpa_cutpoint_def)
  from labels_exclusive[where mvpa_cutpoint = default_mvpa_cutpoint
      and sb_cutpoint = default_sb_cutpoint, OF hy to_offset_1s w1 bin_edges_single,
      THEN conjunct1, THEN mp, OF lt]
  obtain rows d f M S where a:
     "calculate_pa_levels 0 1 default_mvpa_cutpoint default_sb_cutpoint (Some ''1s'') ?h =
        (Inr rows, ?h @ [Frame d, Frame f])"
     "getitem f ''MVPA'' = Inr M" "getitem f ''SB'' = Inr S" "length M = length S"
     "\<forall>k < length M. \<not> (M ! k = Flag True \<and> S ! k = Flag True)"
    by blast
  have run: "f = tmp_frame [0] [(2, 0, 0)] 1000000000 default_mvpa_cutpoint default_sb_cutpoint"
    "rows = pa_rows [0] [(2, 0, 0)] 1000000000 default_mvpa_cutpoint default_sb_cutpoint"
    using a(1) run_interval_rows[OF hy(1-5) hy(7) to_offset_1s w1 bin_edges_single hy(6),
        of default_mvpa_cutpoint default_sb_cutpoint] by simp_all
  have M: "length M = 1"
    using a(2) unfolding run by (auto simp add: tmp_frame_cols means_single ge_cells_def)
  then have "\<not> (M ! 0 = Flag True \<and> S ! 0 = Flag True)" using a(5) by simp
  moreover have "rows = [[Flag True, Flag False]]"
    unfolding run by (simp add: pa_rows_single default_sb_cutpoint_def default_mvpa_cutpoint_def)
  ultimately show ?thesis using a(1-4) M by auto
qed


text \<open>
  C8.  Three samples at 0, 1 and 2 seconds, each with an acceleration of magnitude 1.1 (so
  an ENMO of 0.1), the interval \<^verbatim>\<open>"1s"\<close> and the default cutpoints 0.069 and 0.015: the
  result is three rows, each MVPA true and SB false.
\<close>

theorem three_samples_scenario:
  assumes "sqrt (y1 * y1 + x1 * x1 + z1 * z1) = 11 / 10"
    "sqrt (y2 * y2 + x2 * x2 + z2 * z2) = 11 / 10"
    "sqrt (y3 * y3 + x3 * x3 + z3 * z3) = 11 / 10"
  shows "fst (calculate_pa_levels 0 1 default_mvpa_cutpoint default_sb_cutpoint default_interval
           [TimeArr [0, 1000000000, 2000000000],
            AccArr [(y1, x1, z1), (y2, x2, z2), (y3, x3, z3)]]) =
         Inr [[Flag True, Flag False], [Flag True, Flag False], [Flag True, Flag False]]"
proof -
  let ?ts = "[0, 1000000000, 2000000000] :: int list"
  let ?acc = "[(y1, x1, z1), (y2, x2, z2), (y3, x3, z3)]"
  let ?h = "[TimeArr ?ts, AccArr ?acc]"
  have e: "enmo ?acc = [1 / 10, 1 / 10, 1 / 10]"
    using assms by (simp add: enmo_def enmo_of_norm)
  have "calculate_pa_levels 0 1 default_mvpa_cutpoint default_sb_cutpoint (Some ''1s'') ?h =
     (Inr (pa_rows ?ts ?acc 1000000000 default_mvpa_cutpoint default_sb_cutpoint),
      ?h @ [Frame (data_frame ?ts ?acc),
            Frame (tmp_frame ?ts ?acc 1000000000 default_mvpa_cutpoint default_sb_cutpoint)])"
    by (rule run_interval_rows[where w = 1000000000 and edges = "[0, 1000000000, 2000000000]"])
       (simp_all add: to_offset_1s bin_edges_three)
  moreover have "pa_rows ?ts ?acc 1000000000 default_mvpa_cutpoint default_sb_cutpoint =
      [[Flag True, Flag False], [Flag True, Flag False], [Flag True, Flag False]]"
    unfolding pa_rows_def e
    by (simp add: epoch_mean_three default_mvpa_cutpoint_def default_sb_cutpoint_def)
  ultimately show ?thesis by (simp add: default_interval_def)
qed

text \<open>C8, witness: the magnitude 1.1 along one axis each.\<close>

theorem three_samples_scenario_witness:
  "fst (calculate_pa_levels 0 1 default_mvpa_cutpoint default_sb_cutpoint default_interval
           [TimeArr [0, 1000000000, 2000000000],
            AccArr [(11 / 10, 0, 0), (0, 11 / 10, 0), (0, 0, 11 / 10)]]) =
         Inr [[Flag True, Flag False], [Flag True, Flag False], [Flag True, Flag False]]"
  by (rule three_samples_scenario) (simp_all add: sqrt_121_100)




text \<open>
  C10, as the claim states it: with a non-empty duration string as interval, a non-empty
  input and nondecreasing timestamps, the first window of the resampled frame is at or
  before the first sample, so that every sample is matched and no row has a missing label.
  With the weekly interval \<^verbatim>\<open>"W"\<close> a window is labelled with the Sunday that ends it:
  for one sample on Friday 2 January 1970 the only window of the resampled frame has the
  timestamp of Sunday 4 January, after the sample; the join finds no window and the one row
  of the result holds two missing values.
\<close>

theorem week_window_after_first_sample:
  "\<exists>d f. calculate_pa_levels 0 1 default_mvpa_cutpoint default_sb_cutpoint (Some ''W'')
            [TimeArr [86400000000000], AccArr [(2, 0, 0)]] =
         (Inr [[NaN, NaN]], [TimeArr [86400000000000], AccArr [(2, 0, 0)], Frame d, Frame f]) \<and>
       getitem f ''Time'' = Inr [Stamp 259200000000000] \<and>
       hd [86400000000000] < (259200000000000 :: int)"
proof -
  let ?h = "[TimeArr [86400000000000], AccArr [(2, 0, 0)]]"
  let ?f = "\<lparr>idx = None,
     cols = [(''Time'', [Stamp 259200000000000]), (''Y'', [Num 2]), (''X'', [Num 0]),
             (''Z'', [Num 0]), (''EMNO'', [Num 1]),
             (''MVPA'', [Flag (default_mvpa_cutpoint \<le> 1)]),
             (''SB'', [Flag (1 \<le> default_sb_cutpoint)])]\<rparr>"
  have hy: "0 < length ?h" "?h ! 0 = TimeArr [86400000000000]" "1 < length ?h"
    "?h ! 1 = AccArr [(2, 0, 0)]"
    "length [86400000000000::int] = length [(2::real, 0::real, 0::real)]" "''W'' \<noteq> []"
    by simp_all
  have r: "resampled_frame (data_frame [86400000000000] [(2, 0, 0)]) ''W'' = Inr \<lparr>idx = None,
     cols = [(''Time'', [Stamp 259200000000000]), (''Y'', [Num 2]), (''X'', [Num 0]),
             (''Z'', [Num 0]), (''EMNO'', [Num 1])]\<rparr>"
    by (rule resampled_week[OF week_binner_friday]) simp_all
  have "calculate_pa_levels 0 1 default_mvpa_cutpoint default_sb_cutpoint (Some ''W'') ?h =
      (Inr [[NaN, NaN]], ?h @ [Frame (data_frame [86400000000000] [(2, 0, 0)]), Frame ?f])"
    unfolding run_some(3)[OF hy r labelled_week]
    by (simp add: joined_week)
  moreover have "getitem ?f ''Time'' = Inr [Stamp 259200000000000]"
    by (simp add: getitem_def)
  ultimately show ?thesis by simp
qed

text \<open>
  C10, amended: with an interval string that denotes a fixed width above zero whose bins
  are within the 64-bit range, a non-empty input and nondecreasing timestamps, the first
  window of the resampled frame starts at or before the first sample (and so at or before
  every sample): the join matches every sample with a window, and every returned row is a
  pair of booleans, none missing.
\<close>

theorem first_window_covers:
  assumes "rt < length h" "h ! rt = TimeArr ts" "ra < length h" "h ! ra = AccArr acc"
    "length ts = length acc" "sorted ts" "s \<noteq> []" "to_offset s = Inr (Tick w)" "0 < w"
    "bin_edges ts w = Inr edges" "ts \<noteq> []"
  shows "\<exists>rows d f.
      calculate_pa_levels rt ra mv sb (Some s) h = (Inr rows, h @ [Frame d, Frame f]) \<and>
      getitem f ''Time'' = Inr (map Stamp edges) \<and>
      edges \<noteq> [] \<and> hd edges \<le> hd ts \<and>
      (\<forall>t \<in> set ts. hd edges \<le> t) \<and>
      (\<forall>j \<in> set (asof_join_backward ts edges 0). 0 \<le> j) \<and>
      length rows = length ts \<and>
      (\<forall>r \<in> set rows. \<exists>m b. r = [Flag m, Flag b])"
proof -
  have w: "0 < w" by (rule assms(9))
  have E: "edges = tick_labels ts w" by (rule bin_edges_Inr[OF assms(10)])
  have run: "calculate_pa_levels rt ra mv sb (Some s) h =
      (Inr (pa_rows ts acc w mv sb), h @ [Frame (data_frame ts acc), Frame (tmp_frame ts acc w mv sb)])"
    by (rule run_interval_rows[OF assms(1-5) assms(7,8,9,10,6)])
  from assms(11) have mem: "hd ts \<in> set ts" by simp
  from edge_of_sample[OF w mem] have ne: "tick_labels ts w \<noteq> []" by auto
  have hd: "hd (tick_labels ts w) = window_start ts w (Min (set ts))"
    using tick_labels_nth(1)[OF w, of 0 ts] ne by (simp add: hd_conv_nth)
  have le: "\<forall>t \<in> set ts. hd (tick_labels ts w) \<le> t"
  proof
    fix t assume "t \<in> set ts"
    then have "Min (set ts) \<le> t" by simp
    then show "hd (tick_labels ts w) \<le> t"
      unfolding hd using window_start_le[OF w, of ts "Min (set ts)"] by linarith
  qed
  have ix: "\<forall>j \<in> set (asof_join_backward ts (tick_labels ts w) 0). 0 \<le> j"
  proof
    fix j assume "j \<in> set (asof_join_backward ts (tick_labels ts w) 0)"
    then obtain t where t: "t \<in> set ts" "j = int (count_le (tick_labels ts w) t) - 1"
      unfolding asof_edges[OF w assms(6)] by auto
    from edge_of_sample[OF w t(1)] show "0 \<le> j" unfolding t(2) by auto
  qed
  have rows: "length (pa_rows ts acc w mv sb) = length ts"
    "\<forall>r \<in> set (pa_rows ts acc w mv sb). \<exists>m b. r = [Flag m, Flag b]"
    by (auto simp: pa_rows_def)
  show ?thesis unfolding E
    using run tmp_frame_cols(1)[of ts acc w mv sb] ne le mem ix rows by blast
qed

text \<open>C10, witness: samples at 0.5 s and 2 s; the first window starts at 0 s.\<close>

theorem first_window_covers_witness:
  "\<exists>rows d f.
      calculate_pa_levels 0 1 default_mvpa_cutpoint default_sb_cutpoint (Some ''1s'')
          [TimeArr [500000000, 2000000000], AccArr [(1, 0, 0), (2, 0, 0)]] =
        (Inr rows, [TimeArr [500000000, 2000000000], AccArr [(1, 0, 0), (2, 0, 0)], Frame d, Frame f]) \<and>
      getitem f ''Time'' = Inr [Stamp 0, Stamp 1000000000, Stamp 2000000000] \<and>
      hd [0, 1000000000, 2000000000] \<le> hd [500000000 :: int, 2000000000] \<and>
      length rows = 2"
proof -
  let ?ts = "[500000000, 2000000000] :: int list"
  let ?e = "[0, 1000000000, 2000000000] :: int list"
  let ?h = "[TimeArr ?ts, AccArr [(1, 0, 0), (2, 0, 0)]]"
  have hy: "0 < length ?h" "?h ! 0 = TimeArr ?ts" "1 < length ?h"
    "?h ! 1 = AccArr [(1, 0, 0), (2, 0, 0)]"
    "length ?ts = length [(1::real, 0::real, 0::real), (2, 0, 0)]" "sorted ?ts" "''1s'' \<noteq> []"
    by simp_all
  have w1: "(0::int) < 1000000000" by simp
  have e: "bin_edges ?ts 1000000000 = Inr ?e"
    by (simp add: bin_edges_def in_i64_def i64_max_def Let_def day_ns_def upt_rec)
  have n: "?ts \<noteq> []" by simp
  from first_window_covers[where mv = default_mvpa_cutpoint and sb = default_sb_cutpoint,
      OF hy to_offset_1s w1 e n]
  obtain rows d f where a:
    "calculate_pa_levels 0 1 default_mvpa_cutpoint default_sb_cutpoint (Some ''1s'') ?h =
       (Inr rows, ?h @ [Frame d, Frame f])"
    "getitem f ''Time'' = Inr (map Stamp ?e)"
    "hd ?e \<le> hd ?ts" "length rows = length ?ts"
    by auto
  then show ?thesis by auto
qed

end
